theory Spec2Isabelle
  imports Main "HOL-Library.Word"
begin

section \<open>The SSH session and forwarding multiplexer of go-sshd\<close>

text \<open>
  A shallow embedding of \<^verbatim>\<open>server/server.go\<close>. Every handler of the Go source is one
  HOL function of the same name. A handler's result is the list of calls it makes on its
  collaborators (the ssh library, \<^verbatim>\<open>net\<close>, \<^verbatim>\<open>os/exec\<close>, the logger), in program order,
  and how it ended: by returning or by a run-time panic (an index or a slice bound out of
  range, a method call on a nil interface). What the collaborators answer (whether a bind,
  a dial or a pipe succeeds, how the process exits) is the handler's \<open>World\<close> argument.

  Go's \<^verbatim>\<open>[]byte\<close> and \<^verbatim>\<open>string\<close> are both sequences of bytes; both are \<open>string\<close> here, a
  list of 8-bit \<open>char\<close>s.
\<close>

subsection \<open>Results and events\<close>

type_synonym uint32 = "32 word"

text \<open>Handles of the operating-system resources the server holds.\<close>

type_synonym Listener = nat
type_synonym File = nat

datatype status = Returned | Panicked

datatype RejectionReason = Prohibited | UnknownChannelType

text \<open>
  One constructor per call on a collaborator. \<open>Go es\<close> is a \<^verbatim>\<open>go\<close> statement: a goroutine
  is started that makes the calls \<open>es\<close> in this order, concurrently with what follows.
\<close>

datatype event =
    Log string
  | Reply bool
  | Reject RejectionReason string
  | Accept
  | DiscardRequests
  | Listen string string
  | Dial string string
  | ListenerAccept Listener
  | ListenerClose Listener
  | ChannelClose
  | ConnClose
  | Copy string string
  | StdinPipe
  | StdoutPipe
  | StderrPipe
  | Run "string list"
  | SendRequest string bool string
  | OpenChannel string string
  | CreatePty string
  | SetWinsize File uint32 uint32
  | NewServer
  | Serve
  | ServerClose
  | Wait
  | Go "event list"

type_synonym run = "event list \<times> status"

text \<open>Sequencing of statements: what follows a panic is not executed.\<close>

definition andThen :: "run \<Rightarrow> run \<Rightarrow> run" where
  "andThen r k = (case snd r of Returned \<Rightarrow> (fst r @ fst k, snd k) | Panicked \<Rightarrow> r)"

text \<open>
  Every call made, those of the goroutines started included (a \<open>Go\<close> block is followed
  by the calls of its goroutine).
\<close>

fun calls :: "event \<Rightarrow> event list" where
  "calls (Go es) = Go es # concat (map calls es)"
| "calls e = [e]"

definition allCalls :: "event list \<Rightarrow> event list" where
  "allCalls es = concat (map calls es)"

subsection \<open>Wire codec\<close>

text \<open>
  \<^verbatim>\<open>binary.BigEndian.Uint32(b)\<close> reads \<^verbatim>\<open>b[0..3]\<close> and panics (\<open>None\<close>) on a slice
  shorter than four bytes.
\<close>

definition Uint32 :: "string \<Rightarrow> uint32 option" where
  "Uint32 b =
     (if length b < 4 then None
      else Some (or (or (or (of_char (b ! 3)) (push_bit 8 (of_char (b ! 2))))
                        (push_bit 16 (of_char (b ! 1))))
                    (push_bit 24 (of_char (b ! 0)))))"

text \<open>
  \<^verbatim>\<open>parseDims\<close>: width from \<^verbatim>\<open>b\<close>, height from \<^verbatim>\<open>b[4:]\<close>. The slice expression \<^verbatim>\<open>b[4:]\<close>
  panics when \<^verbatim>\<open>len(b) < 4\<close>; \<open>None\<close> is the panic.
\<close>

definition parseDims :: "string \<Rightarrow> (uint32 \<times> uint32) option" where
  "parseDims b =
     (case Uint32 b of
        None \<Rightarrow> None
      | Some w \<Rightarrow>
          (if length b < 4 then None
           else (case Uint32 (drop 4 b) of None \<Rightarrow> None | Some h \<Rightarrow> Some (w, h))))"

text \<open>
  The payload codec of \<^verbatim>\<open>golang.org/x/crypto/ssh\<close> (\<^verbatim>\<open>ssh.Unmarshal\<close>, \<^verbatim>\<open>ssh.Marshal\<close>) is a
  library outside the repository. It is written here as the specification gives the wire
  form: integers are big-endian 32-bit, strings are a 32-bit length followed by that many
  bytes, fields come in strict order, and \<^verbatim>\<open>Unmarshal\<close> fails (\<open>None\<close>) on a short field
  and on bytes left over after the last field.
\<close>

definition parseUint32 :: "string \<Rightarrow> (uint32 \<times> string) option" where
  "parseUint32 data =
     (case Uint32 data of None \<Rightarrow> None | Some v \<Rightarrow> Some (v, drop 4 data))"

definition parseString :: "string \<Rightarrow> (string \<times> string) option" where
  "parseString data =
     (case Uint32 data of
        None \<Rightarrow> None
      | Some n \<Rightarrow>
          (if length data < 4 + unat n then None
           else Some (take (unat n) (drop 4 data), drop (4 + unat n) data)))"

definition marshalUint32 :: "uint32 \<Rightarrow> string" where
  "marshalUint32 v =
     [char_of (unat (drop_bit 24 v)), char_of (unat (drop_bit 16 v)),
      char_of (unat (drop_bit 8 v)), char_of (unat v)]"

definition marshalString :: "string \<Rightarrow> string" where
  "marshalString s = marshalUint32 (of_nat (length s)) @ s"

text \<open>\<^verbatim>\<open>struct { Command string }\<close>, also \<^verbatim>\<open>struct { SocketPath string }\<close>.\<close>

definition Unmarshal_String :: "string \<Rightarrow> string option" where
  "Unmarshal_String data =
     (case parseString data of
        None \<Rightarrow> None
      | Some (s, rest) \<Rightarrow> (if rest = [] then Some s else None))"

text \<open>\<^verbatim>\<open>struct { Addr string; Port uint32 }\<close>.\<close>

definition Unmarshal_AddrPort :: "string \<Rightarrow> (string \<times> uint32) option" where
  "Unmarshal_AddrPort data =
     (case parseString data of
        None \<Rightarrow> None
      | Some (addr, rest) \<Rightarrow>
          (case parseUint32 rest of
             None \<Rightarrow> None
           | Some (port, rest') \<Rightarrow> (if rest' = [] then Some (addr, port) else None)))"

text \<open>\<^verbatim>\<open>struct { RemoteAddr string; RemotePort uint32; SourceAddr string; SourcePort uint32 }\<close>.\<close>

definition Unmarshal_DirectTcpip :: "string \<Rightarrow> (string \<times> uint32 \<times> string \<times> uint32) option" where
  "Unmarshal_DirectTcpip data =
     (case parseString data of
        None \<Rightarrow> None
      | Some (raddr, r1) \<Rightarrow>
          (case parseUint32 r1 of
             None \<Rightarrow> None
           | Some (rport, r2) \<Rightarrow>
               (case parseString r2 of
                  None \<Rightarrow> None
                | Some (saddr, r3) \<Rightarrow>
                    (case parseUint32 r3 of
                       None \<Rightarrow> None
                     | Some (sport, r4) \<Rightarrow>
                         (if r4 = [] then Some (raddr, rport, saddr, sport) else None)))))"

text \<open>\<^verbatim>\<open>struct { SocketPath string; Reserved0 string; Reserved1 uint32 }\<close>.\<close>

definition Unmarshal_DirectStreamlocal :: "string \<Rightarrow> (string \<times> string \<times> uint32) option" where
  "Unmarshal_DirectStreamlocal data =
     (case parseString data of
        None \<Rightarrow> None
      | Some (path, r1) \<Rightarrow>
          (case parseString r1 of
             None \<Rightarrow> None
           | Some (res0, r2) \<Rightarrow>
               (case parseUint32 r2 of
                  None \<Rightarrow> None
                | Some (res1, r3) \<Rightarrow>
                    (if r3 = [] then Some (path, res0, res1) else None))))"

text \<open>\<^verbatim>\<open>ssh.Marshal(exitStatusMsg{Status: v})\<close>.\<close>

definition Marshal_exitStatusMsg :: "uint32 \<Rightarrow> string" where
  "Marshal_exitStatusMsg v = marshalUint32 v"

subsection \<open>The server, requests and the world\<close>

text \<open>The permission fields of \<^verbatim>\<open>Server\<close>.\<close>

record Server =
  AllowTcpipForward :: bool
  AllowDirectTcpip :: bool
  AllowExecute :: bool
  AllowSftp :: bool
  AllowStreamlocalForward :: bool
  AllowDirectStreamlocal :: bool

text \<open>The fields of \<^verbatim>\<open>ssh.Request\<close> and of \<^verbatim>\<open>ssh.NewChannel\<close> the handlers read.\<close>

record Request =
  Type :: string
  WantReply :: bool
  Payload :: string

record NewChannel =
  ChannelType :: string
  ExtraData :: string

text \<open>
  How \<^verbatim>\<open>cmd.Run()\<close> ends: with \<^verbatim>\<open>nil\<close>, with an \<^verbatim>\<open>*exec.ExitError\<close> whose \<^verbatim>\<open>ExitCode()\<close> is
  the given \<^verbatim>\<open>int\<close>, or with another error (the process could not be started).
\<close>

datatype RunResult = RunNil | ExitError int | RunFailed

text \<open>How \<^verbatim>\<open>sftpServer.Serve()\<close> ends.\<close>

datatype ServeResult = ServeNil | ServeEOF | ServeFailed

text \<open>
  A connection accepted on a forwarding listener: the result of \<^verbatim>\<open>net.SplitHostPort\<close> on
  its remote address with the port already through \<^verbatim>\<open>strconv.Atoi\<close> (\<open>None\<close> when the split
  fails), and whether \<^verbatim>\<open>sshConn.OpenChannel\<close> fails for it.
\<close>

record Conn =
  RemoteAddr_split :: "(string \<times> int) option"
  OpenChannel_err :: bool

text \<open>
  The answers of the collaborators while one channel or one request is handled.
  \<open>createPty_result\<close> stands for \<^verbatim>\<open>createPty\<close>, of which the repository's files hold the
  Windows build only (always an error, \<open>None\<close>). \<open>goroutine_first\<close> says which of the two
  \<^verbatim>\<open>closeOnce.Do\<close> calls of a direct bridge comes first. \<open>accepted\<close> are the connections
  \<^verbatim>\<open>ln.Accept()\<close> returns before it fails (the listener has been closed).
\<close>

record World =
  Accept_err :: bool
  StdinPipe_err :: bool
  StdoutPipe_err :: bool
  StderrPipe_err :: bool
  Run_result :: RunResult
  createPty_result :: "File option"
  NewServer_err :: bool
  Serve_result :: ServeResult
  Dial_err :: bool
  goroutine_first :: bool
  Listen_result :: "Listener option"
  accepted :: "Conn list"
  Close_err :: bool

subsection \<open>Session channels\<close>

text \<open>The exit code \<^verbatim>\<open>handleExecRequest\<close> derives from the result of \<^verbatim>\<open>cmd.Run()\<close>.\<close>

definition exitCode :: "RunResult \<Rightarrow> int" where
  "exitCode r = (case r of RunNil \<Rightarrow> 0 | ExitError n \<Rightarrow> n | RunFailed \<Rightarrow> 0)"

text \<open>
  \<^verbatim>\<open>handleExecRequest\<close>. \<open>Parse\<close> is \<^verbatim>\<open>shellwords.Parse\<close> (\<open>None\<close> is its error).
  \<^verbatim>\<open>cmdSlice[0]\<close> panics on an empty slice. \<^verbatim>\<open>uint32(exitCode)\<close> keeps the low 32 bits.
\<close>

definition handleExecRequest :: "(string \<Rightarrow> string list option) \<Rightarrow> World \<Rightarrow> Request \<Rightarrow> run" where
  "handleExecRequest Parse w req =
     (case Unmarshal_String (Payload req) of
        None \<Rightarrow> ([Log ''failed to parse message in exec''], Returned)
      | Some command \<Rightarrow>
          (case Parse command of
             None \<Rightarrow> ([], Returned)
           | Some cmdSlice \<Rightarrow>
               (case cmdSlice of
                  [] \<Rightarrow> ([], Panicked)
                | name # args \<Rightarrow>
                    (if StdinPipe_err w then ([StdinPipe], Returned)
                     else if StdoutPipe_err w then ([StdinPipe, StdoutPipe], Returned)
                     else if StderrPipe_err w then ([StdinPipe, StdoutPipe, StderrPipe], Returned)
                     else ([StdinPipe, StdoutPipe, StderrPipe,
                            Go [Copy ''stdin'' ''connection''],
                            Go [Copy ''connection'' ''stdout''],
                            Go [Copy ''connection'' ''stderr''],
                            Reply True,
                            Run (name # args),
                            SendRequest ''exit-status'' False
                              (Marshal_exitStatusMsg (word_of_int (exitCode (Run_result w)))),
                            ChannelClose], Returned)))))"

text \<open>
  \<^verbatim>\<open>handleSessionSubSystem\<close>. \<^verbatim>\<open>req.Payload[4:]\<close> panics on a payload shorter than four
  bytes.
\<close>

definition handleSessionSubSystem :: "Server \<Rightarrow> World \<Rightarrow> Request \<Rightarrow> run" where
  "handleSessionSubSystem s w req =
     (if length (Payload req) < 4 then ([], Panicked)
      else if drop 4 (Payload req) \<noteq> ''sftp'' then ([Reply False], Returned)
      else if \<not> AllowSftp s then ([Log ''sftp not allowed'', Reply False], Returned)
      else if NewServer_err w
        then ([Reply True, NewServer, Log ''failed to create sftp server''], Returned)
      else (case Serve_result w of
              ServeEOF \<Rightarrow> ([Reply True, NewServer, Serve, ServerClose], Returned)
            | ServeFailed \<Rightarrow>
                ([Reply True, NewServer, Serve, Log ''failed to serve sftp server''], Returned)
            | ServeNil \<Rightarrow> ([Reply True, NewServer, Serve], Returned)))"

text \<open>
  The request loop of \<^verbatim>\<open>handleSession\<close>, one equation per iteration; \<open>shf\<close> is the pty file
  (\<open>None\<close> is \<^verbatim>\<open>nil\<close>). Each request comes with the world it meets. In \<^verbatim>\<open>pty-req\<close>,
  \<^verbatim>\<open>termLen\<close> is a \<^verbatim>\<open>byte\<close>, so \<^verbatim>\<open>termLen+4\<close> wraps at 256; \<^verbatim>\<open>req.Payload[3]\<close> and
  \<^verbatim>\<open>req.Payload[termLen+4:]\<close> panic out of range. A failing \<^verbatim>\<open>createPty\<close> returns from
  \<^verbatim>\<open>handleSession\<close>.
\<close>

fun handleSession_loop ::
  "(string \<Rightarrow> string list option) \<Rightarrow> Server \<Rightarrow> string \<Rightarrow> File option \<Rightarrow> (Request \<times> World) list \<Rightarrow> run" where
  "handleSession_loop Parse s shell shf [] = ([], Returned)"
| "handleSession_loop Parse s shell shf ((req, w) # rest) =
     (if Type req = ''exec'' then
        (if \<not> AllowExecute s
         then andThen ([Log ''execution not allowed (exec)'', Reply False], Returned)
                (handleSession_loop Parse s shell shf rest)
         else andThen (handleExecRequest Parse w req) (handleSession_loop Parse s shell shf rest))
      else if Type req = ''shell'' then
        andThen ((if length (Payload req) = 0 then [Reply True] else []), Returned)
          (handleSession_loop Parse s shell shf rest)
      else if Type req = ''pty-req'' then
        (if \<not> AllowExecute s
         then andThen ([Log ''execution not allowed (pty-req)'', Reply False], Returned)
                (handleSession_loop Parse s shell shf rest)
         else if length (Payload req) < 4 then ([], Panicked)
         else if length (Payload req) < unat ((of_char (Payload req ! 3) :: 8 word) + 4)
           then ([], Panicked)
         else (case parseDims (drop (unat ((of_char (Payload req ! 3) :: 8 word) + 4)) (Payload req)) of
                 None \<Rightarrow> ([], Panicked)
               | Some (wd, ht) \<Rightarrow>
                   (case createPty_result w of
                      None \<Rightarrow> ([CreatePty shell, Reply False], Returned)
                    | Some f \<Rightarrow>
                        andThen ([CreatePty shell, SetWinsize f wd ht, Reply True], Returned)
                          (handleSession_loop Parse s shell (Some f) rest))))
      else if Type req = ''window-change'' then
        (case parseDims (Payload req) of
           None \<Rightarrow> ([], Panicked)
         | Some (wd, ht) \<Rightarrow>
             andThen ((case shf of None \<Rightarrow> [] | Some f \<Rightarrow> [SetWinsize f wd ht]), Returned)
               (handleSession_loop Parse s shell shf rest))
      else if Type req = ''subsystem'' then
        andThen (handleSessionSubSystem s w req) (handleSession_loop Parse s shell shf rest)
      else
        andThen ([Log ''unsupported request''], Returned)
          (handleSession_loop Parse s shell shf rest))"

text \<open>\<^verbatim>\<open>handleSession\<close>: accept the channel, then serve its requests until they end.\<close>

definition handleSession ::
  "(string \<Rightarrow> string list option) \<Rightarrow> Server \<Rightarrow> string \<Rightarrow> World \<Rightarrow> (Request \<times> World) list \<Rightarrow> run" where
  "handleSession Parse s shell w requests =
     (if Accept_err w then ([Accept, Log ''Could not accept channel''], Returned)
      else andThen ([Accept], Returned) (handleSession_loop Parse s shell None requests))"

subsection \<open>Direct forwarding\<close>

text \<open>\<^verbatim>\<open>strconv.Itoa\<close> on a number that is not negative: its decimal digits.\<close>

fun Itoa :: "nat \<Rightarrow> string" where
  "Itoa n = (if n < 10 then [''0123456789'' ! n] else Itoa (n div 10) @ [''0123456789'' ! (n mod 10)])"

declare Itoa.simps [simp del]

text \<open>\<^verbatim>\<open>net.JoinHostPort\<close>: a host with a colon in it is put in brackets.\<close>

definition JoinHostPort :: "string \<Rightarrow> string \<Rightarrow> string" where
  "JoinHostPort host port =
     (if CHR '':'' \<in> set host then ''['' @ host @ '']:'' @ port else host @ '':'' @ port)"

text \<open>
  \<^verbatim>\<open>sync.Once\<close>: \<^verbatim>\<open>Do(f)\<close> runs \<open>f\<close> if and only if no \<^verbatim>\<open>Do\<close> of this \<^verbatim>\<open>Once\<close> has run
  before; the flag says whether one has. The result is what was run and the new flag.
\<close>

definition Once_Do :: "bool \<Rightarrow> event list \<Rightarrow> event list \<times> bool" where
  "Once_Do fired f = (if fired then ([], True) else (f, True))"

text \<open>The closure \<^verbatim>\<open>closer\<close> of the direct handlers.\<close>

definition closer :: "event list" where
  "closer = [ChannelClose, ConnClose]"

text \<open>
  The last lines of \<^verbatim>\<open>handleDirectTcpip\<close> and \<^verbatim>\<open>handleDirectStreamlocal\<close>: a goroutine
  copies connection to channel and then calls \<^verbatim>\<open>closeOnce.Do(closer)\<close>; the handler copies
  channel to connection and then calls \<^verbatim>\<open>closeOnce.Do(closer)\<close>. \<open>gfirst\<close> says that the
  goroutine's \<^verbatim>\<open>Do\<close> comes first (\<^verbatim>\<open>sync.Once\<close> serialises the two).
\<close>

definition closeOnce_bridge :: "bool \<Rightarrow> event list" where
  "closeOnce_bridge gfirst =
     (let first = Once_Do False closer;
          second = Once_Do (snd first) closer
      in if gfirst
         then [Go (Copy ''channel'' ''conn'' # fst first), Copy ''conn'' ''channel''] @ fst second
         else [Go (Copy ''channel'' ''conn'' # fst second), Copy ''conn'' ''channel''] @ fst first)"

definition handleDirectTcpip :: "World \<Rightarrow> NewChannel \<Rightarrow> run" where
  "handleDirectTcpip w newChannel =
     (case Unmarshal_DirectTcpip (ExtraData newChannel) of
        None \<Rightarrow> ([Log ''failed to parse direct-tcpip message''], Returned)
      | Some (remoteAddr, remotePort, sourceAddr, sourcePort) \<Rightarrow>
          (if Accept_err w then ([Accept, Log ''failed to accept''], Returned)
           else if Dial_err w
             then ([Accept, Go [DiscardRequests],
                    Dial ''tcp'' (JoinHostPort remoteAddr (Itoa (unat remotePort))),
                    Log ''failed to dial'', ChannelClose], Returned)
           else ([Accept, Go [DiscardRequests],
                  Dial ''tcp'' (JoinHostPort remoteAddr (Itoa (unat remotePort)))]
                 @ closeOnce_bridge (goroutine_first w), Returned)))"

definition handleDirectStreamlocal :: "World \<Rightarrow> NewChannel \<Rightarrow> run" where
  "handleDirectStreamlocal w newChannel =
     (case Unmarshal_DirectStreamlocal (ExtraData newChannel) of
        None \<Rightarrow> ([Log ''failed to parse direct-streamlocal message''], Returned)
      | Some (socketPath, reserved0, reserved1) \<Rightarrow>
          (if Accept_err w then ([Accept, Log ''failed to accept''], Returned)
           else if Dial_err w
             then ([Accept, Go [DiscardRequests], Dial ''unix'' socketPath,
                    Log ''failed to dial'', ChannelClose], Returned)
           else ([Accept, Go [DiscardRequests], Dial ''unix'' socketPath]
                 @ closeOnce_bridge (goroutine_first w), Returned)))"

subsection \<open>Channel dispatch\<close>

text \<open>
  \<^verbatim>\<open>handleChannel\<close>. \<open>w\<close> is the world of the channel, \<open>requests\<close> the requests a session
  channel receives.
\<close>

definition handleChannel ::
  "(string \<Rightarrow> string list option) \<Rightarrow> Server \<Rightarrow> string \<Rightarrow> NewChannel \<Rightarrow> World \<Rightarrow> (Request \<times> World) list \<Rightarrow> run" where
  "handleChannel Parse s shell newChannel w requests =
     (if ChannelType newChannel = ''session'' then handleSession Parse s shell w requests
      else if ChannelType newChannel = ''direct-tcpip'' then
        (if \<not> AllowDirectTcpip s
         then ([Reject Prohibited ''direct-tcpip not allowed''], Returned)
         else handleDirectTcpip w newChannel)
      else if ChannelType newChannel = ''direct-streamlocal@openssh.com'' then
        (if \<not> AllowDirectStreamlocal s
         then ([Reject Prohibited ''direct-streamlocal (Unix domain socket) not allowed''], Returned)
         else handleDirectStreamlocal w newChannel)
      else ([Reject UnknownChannelType (''unknown channel type: '' @ ChannelType newChannel)],
            Returned))"

subsection \<open>The forward registry\<close>

type_synonym Registry = "string \<rightharpoonup> Listener"

text \<open>
  Modelled from the spec: the package \<^verbatim>\<open>sync_generics\<close> (the type \<^verbatim>\<open>Map\<close> of the field
  \<^verbatim>\<open>bindAddressToListener\<close>, with its methods \<^verbatim>\<open>Store\<close> and \<^verbatim>\<open>LoadAndDelete\<close>) is not among
  the repository's files. The specification describes it as a concurrent map from
  bind-address to listener: \<^verbatim>\<open>store(key, listener)\<close> inserts, and "the source's store on a
  pre-existing key silently overwrites, orphaning the prior listener";
  \<^verbatim>\<open>take(key)\<close> atomically removes and returns the entry, if there is one.
\<close>

definition Store :: "Registry \<Rightarrow> string \<Rightarrow> Listener \<Rightarrow> Registry" where
  "Store m key ln = m(key \<mapsto> ln)"

definition LoadAndDelete :: "Registry \<Rightarrow> string \<Rightarrow> Listener option \<times> Registry" where
  "LoadAndDelete m key = (m key, m(key := None))"

subsection \<open>Remote forwarding\<close>

text \<open>
  \<^verbatim>\<open>ssh.Marshal\<close> of the payloads of the reverse channels:
  \<^verbatim>\<open>struct { Addr string; Port uint32; OriginatorAddr string; OriginatorPort uint32 }\<close> and
  \<^verbatim>\<open>struct { SocketPath string; Reserved string }\<close>.
\<close>

definition Marshal_forwardedTcpip :: "string \<Rightarrow> uint32 \<Rightarrow> string \<Rightarrow> uint32 \<Rightarrow> string" where
  "Marshal_forwardedTcpip addr port originatorAddr originatorPort =
     marshalString addr @ marshalUint32 port @ marshalString originatorAddr
       @ marshalUint32 originatorPort"

definition Marshal_forwardedStreamlocal :: "string \<Rightarrow> string \<Rightarrow> string" where
  "Marshal_forwardedStreamlocal socketPath reserved =
     marshalString socketPath @ marshalString reserved"

text \<open>
  What \<^verbatim>\<open>handleTcpipForward\<close> does with one accepted connection: it fills the reply
  message (originator empty and zero when the remote address does not split) and starts a
  goroutine that opens the reverse channel and starts one goroutine per copy direction.
  Each of the two closes the connection and the channel when its copy ends.
\<close>

definition forwardedTcpip_conn :: "string \<Rightarrow> uint32 \<Rightarrow> Conn \<Rightarrow> event list" where
  "forwardedTcpip_conn addr port c =
     (case RemoteAddr_split c of
        None \<Rightarrow> [Log ''failed to split remote address'']
      | Some (originatorAddr, originatorPort) \<Rightarrow> [])
     @ [Go (OpenChannel ''forwarded-tcpip''
              (case RemoteAddr_split c of
                 None \<Rightarrow> Marshal_forwardedTcpip addr port [] 0
               | Some (originatorAddr, originatorPort) \<Rightarrow>
                   Marshal_forwardedTcpip addr port originatorAddr (word_of_int originatorPort))
            # (if OpenChannel_err c then [Reply False, ConnClose]
               else [Go [DiscardRequests],
                     Go [Copy ''channel'' ''conn'', ConnClose, ChannelClose],
                     Go [Copy ''conn'' ''channel'', ConnClose, ChannelClose]]))]"

definition forwardedStreamlocal_conn :: "string \<Rightarrow> Conn \<Rightarrow> event list" where
  "forwardedStreamlocal_conn socketPath c =
     [Go (OpenChannel ''forwarded-streamlocal@openssh.com''
            (Marshal_forwardedStreamlocal socketPath [])
          # (if OpenChannel_err c then [Reply False, ConnClose]
             else [Go [DiscardRequests],
                   Go [Copy ''channel'' ''conn'', ConnClose, ChannelClose],
                   Go [Copy ''conn'' ''channel'', ConnClose, ChannelClose]]))]"

text \<open>
  The accept loops, over the connections accepted before \<^verbatim>\<open>ln.Accept()\<close> fails; the
  failure ends the handler.
\<close>

fun handleTcpipForward_loop :: "Listener \<Rightarrow> string \<Rightarrow> uint32 \<Rightarrow> Conn list \<Rightarrow> event list" where
  "handleTcpipForward_loop ln addr port [] = [ListenerAccept ln, Log ''failed to accept'']"
| "handleTcpipForward_loop ln addr port (c # cs) =
     ListenerAccept ln # forwardedTcpip_conn addr port c @ handleTcpipForward_loop ln addr port cs"

fun handleStreamlocalForward_loop :: "Listener \<Rightarrow> string \<Rightarrow> Conn list \<Rightarrow> event list" where
  "handleStreamlocalForward_loop ln socketPath [] = [ListenerAccept ln, Log ''failed to accept'']"
| "handleStreamlocalForward_loop ln socketPath (c # cs) =
     ListenerAccept ln # forwardedStreamlocal_conn socketPath c
       @ handleStreamlocalForward_loop ln socketPath cs"

text \<open>
  \<^verbatim>\<open>handleTcpipForward\<close> and \<^verbatim>\<open>handleStreamlocalForward\<close>, with the registry before and
  after. The watchdog goroutine waits for the end of the connection and closes the
  listener.
\<close>

definition handleTcpipForward :: "Registry \<Rightarrow> World \<Rightarrow> Request \<Rightarrow> run \<times> Registry" where
  "handleTcpipForward reg w req =
     (case Unmarshal_AddrPort (Payload req) of
        None \<Rightarrow> (([Reply False], Returned), reg)
      | Some (addr, port) \<Rightarrow>
          (case Listen_result w of
             None \<Rightarrow>
               (([Listen ''tcp'' (JoinHostPort addr (Itoa (unat port))), Reply False], Returned),
                reg)
           | Some ln \<Rightarrow>
               (([Listen ''tcp'' (JoinHostPort addr (Itoa (unat port))),
                  Reply True,
                  Go [Wait, ListenerClose ln, Log ''connection closed'']]
                 @ handleTcpipForward_loop ln addr port (accepted w), Returned),
                Store reg (JoinHostPort addr (Itoa (unat port))) ln)))"

definition handleStreamlocalForward :: "Registry \<Rightarrow> World \<Rightarrow> Request \<Rightarrow> run \<times> Registry" where
  "handleStreamlocalForward reg w req =
     (case Unmarshal_String (Payload req) of
        None \<Rightarrow> (([Reply False], Returned), reg)
      | Some socketPath \<Rightarrow>
          (case Listen_result w of
             None \<Rightarrow> (([Listen ''unix'' socketPath, Reply False], Returned), reg)
           | Some ln \<Rightarrow>
               (([Listen ''unix'' socketPath,
                  Reply True,
                  Go [Wait, ListenerClose ln, Log ''connection closed'']]
                 @ handleStreamlocalForward_loop ln socketPath (accepted w), Returned),
                Store reg socketPath ln)))"

text \<open>
  \<^verbatim>\<open>cancelTcpipForward\<close>. After \<^verbatim>\<open>!loaded\<close> the function goes on to \<^verbatim>\<open>ln.Close()\<close> with
  \<^verbatim>\<open>ln\<close> the nil interface: a panic. After a close error it goes on to \<^verbatim>\<open>req.Reply(true, nil)\<close>.
\<close>

definition cancelTcpipForward :: "Registry \<Rightarrow> World \<Rightarrow> Request \<Rightarrow> run \<times> Registry" where
  "cancelTcpipForward reg w req =
     (case Unmarshal_AddrPort (Payload req) of
        None \<Rightarrow> (([Reply False], Returned), reg)
      | Some (addr, port) \<Rightarrow>
          (case fst (LoadAndDelete reg (JoinHostPort addr (Itoa (unat port)))) of
             None \<Rightarrow>
               (([Reply False, Log ''failed to find listener''], Panicked),
                snd (LoadAndDelete reg (JoinHostPort addr (Itoa (unat port)))))
           | Some ln \<Rightarrow>
               ((if Close_err w
                 then ([ListenerClose ln, Reply False, Log ''failed to close'', Reply True], Returned)
                 else ([ListenerClose ln, Reply True], Returned)),
                snd (LoadAndDelete reg (JoinHostPort addr (Itoa (unat port)))))))"

text \<open>\<^verbatim>\<open>cancelStreamlocalForward\<close>: it returns after \<^verbatim>\<open>!loaded\<close>.\<close>

definition cancelStreamlocalForward :: "Registry \<Rightarrow> World \<Rightarrow> Request \<Rightarrow> run \<times> Registry" where
  "cancelStreamlocalForward reg w req =
     (case Unmarshal_String (Payload req) of
        None \<Rightarrow> (([Reply False], Returned), reg)
      | Some socketPath \<Rightarrow>
          (case fst (LoadAndDelete reg socketPath) of
             None \<Rightarrow>
               (([Log ''failed to find listener'', Reply False], Returned),
                snd (LoadAndDelete reg socketPath))
           | Some ln \<Rightarrow>
               ((if Close_err w
                 then ([ListenerClose ln, Reply False, Log ''failed to close'', Reply True], Returned)
                 else ([ListenerClose ln, Reply True], Returned)),
                snd (LoadAndDelete reg socketPath))))"

subsection \<open>Global requests\<close>

text \<open>
  A handler started with \<^verbatim>\<open>go\<close>: its calls are those of a goroutine; its panic ends the
  process, so the dispatcher goes no further.
\<close>

definition spawn :: "run \<Rightarrow> run" where
  "spawn r = ([Go (fst r)], snd r)"

text \<open>
  The loop of \<^verbatim>\<open>HandleGlobalRequests\<close>, one equation per request, each with the world it
  meets. The registry operation of a started handler takes effect before the next
  request is read (one of the orders the goroutines allow).
\<close>

fun HandleGlobalRequests :: "Server \<Rightarrow> Registry \<Rightarrow> (Request \<times> World) list \<Rightarrow> run \<times> Registry" where
  "HandleGlobalRequests s reg [] = (([], Returned), reg)"
| "HandleGlobalRequests s reg ((req, w) # rest) =
     (if Type req = ''tcpip-forward'' then
        (if \<not> AllowTcpipForward s
         then (andThen ([Log ''tcpip-forward not allowed'', Reply False], Returned)
                 (fst (HandleGlobalRequests s reg rest)),
               snd (HandleGlobalRequests s reg rest))
         else (case snd (fst (handleTcpipForward reg w req)) of
                 Panicked \<Rightarrow> (spawn (fst (handleTcpipForward reg w req)),
                               snd (handleTcpipForward reg w req))
               | Returned \<Rightarrow>
                   (andThen (spawn (fst (handleTcpipForward reg w req)))
                      (fst (HandleGlobalRequests s (snd (handleTcpipForward reg w req)) rest)),
                    snd (HandleGlobalRequests s (snd (handleTcpipForward reg w req)) rest))))
      else if Type req = ''cancel-tcpip-forward'' then
        (case snd (fst (cancelTcpipForward reg w req)) of
           Panicked \<Rightarrow> (spawn (fst (cancelTcpipForward reg w req)),
                         snd (cancelTcpipForward reg w req))
         | Returned \<Rightarrow>
             (andThen (spawn (fst (cancelTcpipForward reg w req)))
                (fst (HandleGlobalRequests s (snd (cancelTcpipForward reg w req)) rest)),
              snd (HandleGlobalRequests s (snd (cancelTcpipForward reg w req)) rest)))
      else if Type req = ''streamlocal-forward@openssh.com'' then
        (if \<not> AllowStreamlocalForward s
         then (andThen ([Log ''streamlocal-forward not allowed'', Reply False], Returned)
                 (fst (HandleGlobalRequests s reg rest)),
               snd (HandleGlobalRequests s reg rest))
         else (case snd (fst (handleStreamlocalForward reg w req)) of
                 Panicked \<Rightarrow> (spawn (fst (handleStreamlocalForward reg w req)),
                               snd (handleStreamlocalForward reg w req))
               | Returned \<Rightarrow>
                   (andThen (spawn (fst (handleStreamlocalForward reg w req)))
                      (fst (HandleGlobalRequests s (snd (handleStreamlocalForward reg w req)) rest)),
                    snd (HandleGlobalRequests s (snd (handleStreamlocalForward reg w req)) rest))))
      else if Type req = ''cancel-streamlocal-forward@openssh.com'' then
        (case snd (fst (cancelStreamlocalForward reg w req)) of
           Panicked \<Rightarrow> (spawn (fst (cancelStreamlocalForward reg w req)),
                         snd (cancelStreamlocalForward reg w req))
         | Returned \<Rightarrow>
             (andThen (spawn (fst (cancelStreamlocalForward reg w req)))
                (fst (HandleGlobalRequests s (snd (cancelStreamlocalForward reg w req)) rest)),
              snd (HandleGlobalRequests s (snd (cancelStreamlocalForward reg w req)) rest)))
      else
        (andThen ((if WantReply req then [Reply False] else []) @ [Log ''request discarded''],
                  Returned)
           (fst (HandleGlobalRequests s reg rest)),
         snd (HandleGlobalRequests s reg rest)))"

subsection \<open>Word splitting\<close>

text \<open>
  Modelled from the spec: \<^verbatim>\<open>shellwords.Parse\<close> (\<^verbatim>\<open>github.com/mattn/go-shellwords\<close>) is not
  among the repository's files; the handlers above take it as their parameter \<open>Parse\<close>.
  Where a concrete command line is run, the parameter is this splitter, written from the
  specification's words, "POSIX-style shell word splitting (quoted arguments preserved,
  backslash-escapes honored)": blanks separate words; a backslash outside single quotes
  takes the next character literally; single and double quotes keep blanks in a word and
  make a word even when empty; an open quote or a trailing backslash is an error
  (\<open>None\<close>). The arguments of \<open>splitWords\<close> are the words so far, the word being read,
  whether a word is being read, and whether the scan is after a backslash, in single
  quotes, in double quotes.
\<close>

definition isSpace :: "char \<Rightarrow> bool" where
  "isSpace r = (r = CHR '' '' \<or> r = CHR 0x09 \<or> r = CHR 0x0D \<or> r = CHR 0x0A)"

fun splitWords ::
  "string list \<Rightarrow> string \<Rightarrow> bool \<Rightarrow> bool \<Rightarrow> bool \<Rightarrow> bool \<Rightarrow> string \<Rightarrow> string list option" where
  "splitWords args buf got esc sq dq [] =
     (if esc \<or> sq \<or> dq then None else Some (if got then args @ [buf] else args))"
| "splitWords args buf got esc sq dq (r # rs) =
     (if esc then splitWords args (buf @ [r]) True False sq dq rs
      else if r = CHR 0x5C then
        (if sq then splitWords args (buf @ [r]) got False sq dq rs
         else splitWords args buf got True sq dq rs)
      else if isSpace r then
        (if sq \<or> dq then splitWords args (buf @ [r]) got False sq dq rs
         else if got then splitWords (args @ [buf]) [] False False sq dq rs
         else splitWords args buf got False sq dq rs)
      else if r = CHR 0x22 \<and> \<not> sq then splitWords args buf (got \<or> dq) False sq (\<not> dq) rs
      else if r = CHR 0x27 \<and> \<not> dq then splitWords args buf (got \<or> sq) False (\<not> sq) dq rs
      else splitWords args (buf @ [r]) True False sq dq rs)"

definition shellwords_Parse :: "string \<Rightarrow> string list option" where
  "shellwords_Parse line = splitWords [] [] False False False False line"

subsection \<open>Concrete servers, worlds and payloads\<close>

text \<open>A server with no permission and one with every permission.\<close>

definition denyAll :: Server where
  "denyAll = \<lparr>AllowTcpipForward = False, AllowDirectTcpip = False, AllowExecute = False,
     AllowSftp = False, AllowStreamlocalForward = False, AllowDirectStreamlocal = False\<rparr>"

definition allowAll :: Server where
  "allowAll = \<lparr>AllowTcpipForward = True, AllowDirectTcpip = True, AllowExecute = True,
     AllowSftp = True, AllowStreamlocalForward = True, AllowDirectStreamlocal = True\<rparr>"

text \<open>
  A world in which every call succeeds: the listener bound is number 1, the pty is file 3,
  the process exits with \<^verbatim>\<open>nil\<close>, no connection arrives on the listener.
\<close>

definition fairWorld :: World where
  "fairWorld = \<lparr>Accept_err = False, StdinPipe_err = False, StdoutPipe_err = False,
     StderrPipe_err = False, Run_result = RunNil, createPty_result = Some 3,
     NewServer_err = False, Serve_result = ServeEOF, Dial_err = False,
     goroutine_first = False, Listen_result = Some 1, accepted = [], Close_err = False\<rparr>"

text \<open>
  Payloads in wire form: the \<^verbatim>\<open>exec\<close> payloads of the commands \<^verbatim>\<open>/bin/echo hello\<close> and of
  the empty command; address 127.0.0.1 with port 0 and with port 65535; the socket path
  \<^verbatim>\<open>/tmp/t.sock\<close>; the subsystem name \<^verbatim>\<open>sftp\<close>; a \<^verbatim>\<open>pty-req\<close> for an 80 by 24 \<^verbatim>\<open>xterm\<close>;
  the extra data of a \<^verbatim>\<open>direct-tcpip\<close> channel to 127.0.0.1:8080 and of a
  \<^verbatim>\<open>direct-streamlocal\<close> channel to \<^verbatim>\<open>/tmp/t.sock\<close>.
\<close>

definition payload_echo :: string where
  "payload_echo = [CHR 0x00, CHR 0x00, CHR 0x00, CHR 0x0F] @ ''/bin/echo hello''"

definition payload_no_command :: string where
  "payload_no_command = [CHR 0x00, CHR 0x00, CHR 0x00, CHR 0x00]"

definition payload_localhost_0 :: string where
  "payload_localhost_0 =
     [CHR 0x00, CHR 0x00, CHR 0x00, CHR 0x09] @ ''127.0.0.1'' @ [CHR 0x00, CHR 0x00, CHR 0x00, CHR 0x00]"

definition payload_localhost_65535 :: string where
  "payload_localhost_65535 =
     [CHR 0x00, CHR 0x00, CHR 0x00, CHR 0x09] @ ''127.0.0.1'' @ [CHR 0x00, CHR 0x00, CHR 0xFF, CHR 0xFF]"

definition payload_sock :: string where
  "payload_sock = [CHR 0x00, CHR 0x00, CHR 0x00, CHR 0x0B] @ ''/tmp/t.sock''"

definition payload_sftp :: string where
  "payload_sftp = [CHR 0x00, CHR 0x00, CHR 0x00, CHR 0x04] @ ''sftp''"

definition payload_pty :: string where
  "payload_pty =
     [CHR 0x00, CHR 0x00, CHR 0x00, CHR 0x05] @ ''xterm''
     @ [CHR 0x00, CHR 0x00, CHR 0x00, CHR 0x50] @ [CHR 0x00, CHR 0x00, CHR 0x00, CHR 0x18]
     @ [CHR 0x00, CHR 0x00, CHR 0x00, CHR 0x00] @ [CHR 0x00, CHR 0x00, CHR 0x00, CHR 0x00]
     @ [CHR 0x00, CHR 0x00, CHR 0x00, CHR 0x00]"

definition extra_direct_tcpip :: string where
  "extra_direct_tcpip =
     [CHR 0x00, CHR 0x00, CHR 0x00, CHR 0x09] @ ''127.0.0.1'' @ [CHR 0x00, CHR 0x00, CHR 0x1F, CHR 0x90]
     @ [CHR 0x00, CHR 0x00, CHR 0x00, CHR 0x09] @ ''127.0.0.1'' @ [CHR 0x00, CHR 0x00, CHR 0xC3, CHR 0x50]"

definition extra_direct_streamlocal :: string where
  "extra_direct_streamlocal =
     [CHR 0x00, CHR 0x00, CHR 0x00, CHR 0x0B] @ ''/tmp/t.sock''
     @ [CHR 0x00, CHR 0x00, CHR 0x00, CHR 0x00] @ [CHR 0x00, CHR 0x00, CHR 0x00, CHR 0x00]"

text \<open>A connection from 127.0.0.1 port 40000 for which the reverse channel opens.\<close>

definition someConn :: Conn where
  "someConn = \<lparr>RemoteAddr_split = Some (''127.0.0.1'', 40000), OpenChannel_err = False\<rparr>"

section \<open>Properties\<close>

subsection \<open>Sequencing and the codec\<close>

lemma andThen_Returned: "andThen (es, Returned) k = (es @ fst k, snd k)"
  by (simp add: andThen_def)

lemma andThen_Panicked: "andThen (es, Panicked) k = (es, Panicked)"
  by (simp add: andThen_def)

lemma andThen_Nil: "andThen ([], Returned) k = k"
  by (simp add: andThen_def)

lemma andThen_done: "andThen r ([], Returned) = r"
  by (cases r; cases "snd r") (auto simp add: andThen_def)

lemma of_char_char_of_unat: "(of_char (char_of (unat (x :: 32 word))) :: 32 word) = take_bit 8 x"
proof -
  have "(of_char (char_of (unat x)) :: 32 word) = of_nat (of_char (char_of (unat x)))"
    by (simp only: of_nat_of_char)
  also have "\<dots> = of_nat (unat x mod 256)"
    by (simp only: of_char_of)
  also have "\<dots> = of_nat (unat (x mod 256))"
    by (simp add: unat_mod_distrib)
  also have "\<dots> = take_bit 8 x"
    by (simp add: take_bit_eq_mod)
  finally show ?thesis .
qed

lemma bytes_join:
  "or (or (or (take_bit 8 v) (push_bit 8 (take_bit 8 (drop_bit 8 v))))
          (push_bit 16 (take_bit 8 (drop_bit 16 v))))
      (push_bit 24 (take_bit 8 (drop_bit 24 v))) = (v :: 32 word)"
proof (rule bit_word_eqI)
  fix n assume "n < LENGTH(32)"
  then have n: "n < 32" by simp
  consider "n < 8" | "8 \<le> n" "n < 16" | "16 \<le> n" "n < 24" | "24 \<le> n"
    by linarith
  then show "bit (or (or (or (take_bit 8 v) (push_bit 8 (take_bit 8 (drop_bit 8 v))))
                         (push_bit 16 (take_bit 8 (drop_bit 16 v))))
                     (push_bit 24 (take_bit 8 (drop_bit 24 v)))) n = bit v n"
    using n by cases (auto simp add: bit_simps)
qed

text \<open>Decoding an encoded 32-bit integer gives it back, with nothing left over.\<close>

lemma Uint32_marshalUint32: "Uint32 (marshalUint32 v) = Some v"
  by (simp add: Uint32_def marshalUint32_def of_char_char_of_unat bytes_join)

lemma parseUint32_marshalUint32: "parseUint32 (marshalUint32 v) = Some (v, [])"
  by (simp add: parseUint32_def Uint32_marshalUint32) (simp add: marshalUint32_def)

text \<open>The concrete payloads decode to what they were written for.\<close>

lemma decode_localhost_65535: "Unmarshal_AddrPort payload_localhost_65535 = Some (''127.0.0.1'', 65535)"
  by (simp add: payload_localhost_65535_def Unmarshal_AddrPort_def parseString_def parseUint32_def Uint32_def)

lemma decode_localhost_0: "Unmarshal_AddrPort payload_localhost_0 = Some (''127.0.0.1'', 0)"
  by (simp add: payload_localhost_0_def Unmarshal_AddrPort_def parseString_def parseUint32_def Uint32_def)

lemma address_localhost_65535: "JoinHostPort ''127.0.0.1'' (Itoa 65535) = ''127.0.0.1:65535''"
  by (simp add: JoinHostPort_def Itoa.simps)

lemma address_localhost_0: "JoinHostPort ''127.0.0.1'' (Itoa 0) = ''127.0.0.1:0''"
  by (simp add: JoinHostPort_def Itoa.simps)

lemma decode_sock: "Unmarshal_String payload_sock = Some ''/tmp/t.sock''"
  by (simp add: payload_sock_def Unmarshal_String_def parseString_def Uint32_def)

lemma decode_echo: "Unmarshal_String payload_echo = Some ''/bin/echo hello''"
  by (simp add: payload_echo_def Unmarshal_String_def parseString_def Uint32_def)

lemma decode_no_command: "Unmarshal_String payload_no_command = Some []"
  by (simp add: payload_no_command_def Unmarshal_String_def parseString_def Uint32_def)

lemma decode_direct_tcpip:
  "Unmarshal_DirectTcpip extra_direct_tcpip = Some (''127.0.0.1'', 8080, ''127.0.0.1'', 50000)"
  by (simp add: extra_direct_tcpip_def Unmarshal_DirectTcpip_def parseString_def parseUint32_def Uint32_def)

lemma address_localhost_8080: "JoinHostPort ''127.0.0.1'' (Itoa 8080) = ''127.0.0.1:8080''"
  by (simp add: JoinHostPort_def Itoa.simps)

lemma decode_direct_streamlocal:
  "Unmarshal_DirectStreamlocal extra_direct_streamlocal = Some (''/tmp/t.sock'', [], 0)"
  by (simp add: extra_direct_streamlocal_def Unmarshal_DirectStreamlocal_def parseString_def parseUint32_def Uint32_def)

lemma split_echo: "shellwords_Parse ''/bin/echo hello'' = Some [''/bin/echo'', ''hello'']"
  by (simp add: shellwords_Parse_def isSpace_def)

lemma split_nothing: "shellwords_Parse [] = Some []"
  by (simp add: shellwords_Parse_def)

lemma pty_dims: "length payload_pty = 29 \<and> unat ((of_char (payload_pty ! 3) :: 8 word) + 4) = 9
   \<and> parseDims (drop 9 payload_pty) = Some (80, 24)"
  by (simp add: payload_pty_def parseDims_def Uint32_def)

subsection \<open>Exit status of exec\<close>

text \<open>
  Claim C4. For an exec request whose process runs (the payload decodes to a command, the
  command splits into a non-empty argv, the three pipes are created), the exit code is 0
  when \<^verbatim>\<open>cmd.Run()\<close> returns \<^verbatim>\<open>nil\<close>, the reported code on an \<^verbatim>\<open>ExitError\<close>, and 0 on any
  other error; the handler sends an \<^verbatim>\<open>exit-status\<close> request with \<^verbatim>\<open>want_reply = false\<close>
  whose payload decodes to that code (as \<^verbatim>\<open>uint32\<close>), and closes the channel after it.
\<close>

theorem exec_exit_status:
  assumes "Unmarshal_String (Payload req) = Some command"
    and "Parse command = Some (name # args)"
    and "\<not> StdinPipe_err w" and "\<not> StdoutPipe_err w" and "\<not> StderrPipe_err w"
  shows "\<exists>code.
           code = (case Run_result w of RunNil \<Rightarrow> 0 | ExitError n \<Rightarrow> n | RunFailed \<Rightarrow> 0)
         \<and> handleExecRequest Parse w req =
             ([StdinPipe, StdoutPipe, StderrPipe,
               Go [Copy ''stdin'' ''connection''],
               Go [Copy ''connection'' ''stdout''],
               Go [Copy ''connection'' ''stderr''],
               Reply True,
               Run (name # args),
               SendRequest ''exit-status'' False (Marshal_exitStatusMsg (word_of_int code)),
               ChannelClose], Returned)
         \<and> parseUint32 (Marshal_exitStatusMsg (word_of_int code)) = Some (word_of_int code, [])"
  using assms
  by (simp add: handleExecRequest_def exitCode_def Marshal_exitStatusMsg_def
      parseUint32_marshalUint32)

text \<open>The command \<^verbatim>\<open>/bin/echo hello\<close>, exiting with code 3.\<close>

theorem exec_exit_status_witness:
  "handleExecRequest shellwords_Parse (fairWorld\<lparr>Run_result := ExitError 3\<rparr>)
     \<lparr>Type = ''exec'', WantReply = True, Payload = payload_echo\<rparr> =
   ([StdinPipe, StdoutPipe, StderrPipe,
     Go [Copy ''stdin'' ''connection''],
     Go [Copy ''connection'' ''stdout''],
     Go [Copy ''connection'' ''stderr''],
     Reply True,
     Run [''/bin/echo'', ''hello''],
     SendRequest ''exit-status'' False [CHR 0x00, CHR 0x00, CHR 0x00, CHR 0x03],
     ChannelClose], Returned)"
proof -
  have p: "Unmarshal_String (Payload \<lparr>Type = ''exec'', WantReply = True, Payload = payload_echo\<rparr>)
             = Some ''/bin/echo hello''"
    by (simp add: payload_echo_def Unmarshal_String_def parseString_def Uint32_def)
  have q: "shellwords_Parse ''/bin/echo hello'' = Some (''/bin/echo'' # [''hello''])"
    by (simp add: shellwords_Parse_def isSpace_def)
  have m: "Marshal_exitStatusMsg (word_of_int 3) = [CHR 0x00, CHR 0x00, CHR 0x00, CHR 0x03]"
    by code_simp
  show ?thesis
    using exec_exit_status [where Parse = shellwords_Parse and command = "''/bin/echo hello''"
        and name = "''/bin/echo''" and args = "[''hello'']"
        and w = "fairWorld\<lparr>Run_result := ExitError 3\<rparr>"
        and req = "\<lparr>Type = ''exec'', WantReply = True, Payload = payload_echo\<rparr>"] p q m
    by (simp add: fairWorld_def)
qed

subsection \<open>A shell request with a payload\<close>

text \<open>
  Claim C9. A \<^verbatim>\<open>shell\<close> request with a non-empty payload makes the session loop call
  nothing at all: no reply, true or false, whatever \<^verbatim>\<open>WantReply\<close> is; the loop goes on
  with the later requests as if the request had not come.
\<close>

theorem shell_with_payload_no_reply:
  assumes "Type req = ''shell''" and "Payload req \<noteq> []"
  shows "handleSession_loop Parse s shell shf ((req, w) # rest) =
           handleSession_loop Parse s shell shf rest"
  using assms by (simp add: andThen_Nil)

text \<open>A \<^verbatim>\<open>shell\<close> request carrying \<^verbatim>\<open>ls\<close>, then one with no payload: one reply, to the second.\<close>

theorem shell_with_payload_no_reply_witness:
  "handleSession_loop shellwords_Parse allowAll ''/bin/sh'' None
     [(\<lparr>Type = ''shell'', WantReply = True, Payload = ''ls''\<rparr>, fairWorld),
      (\<lparr>Type = ''shell'', WantReply = True, Payload = []\<rparr>, fairWorld)] =
   ([Reply True], Returned)"
  using shell_with_payload_no_reply [of "\<lparr>Type = ''shell'', WantReply = True, Payload = ''ls''\<rparr>"
      shellwords_Parse allowAll "''/bin/sh''" None fairWorld
      "[(\<lparr>Type = ''shell'', WantReply = True, Payload = []\<rparr>, fairWorld)]"]
  by (simp add: andThen_def)

subsection \<open>Cancel requests are not gated\<close>

text \<open>
  Claim C10. \<^verbatim>\<open>HandleGlobalRequests\<close> starts \<^verbatim>\<open>cancelTcpipForward\<close> on a
  \<^verbatim>\<open>cancel-tcpip-forward\<close> request and \<^verbatim>\<open>cancelStreamlocalForward\<close> on a
  \<^verbatim>\<open>cancel-streamlocal-forward@openssh.com\<close> request whatever the permissions of the
  server \<open>s\<close> are: no permission is read.
\<close>

theorem cancel_requests_not_gated:
  "(Type req = ''cancel-tcpip-forward'' \<longrightarrow>
      HandleGlobalRequests s reg [(req, w)] =
        (spawn (fst (cancelTcpipForward reg w req)), snd (cancelTcpipForward reg w req)))
   \<and> (Type req = ''cancel-streamlocal-forward@openssh.com'' \<longrightarrow>
      HandleGlobalRequests s reg [(req, w)] =
        (spawn (fst (cancelStreamlocalForward reg w req)),
         snd (cancelStreamlocalForward reg w req)))"
  by (auto simp add: andThen_done split: status.splits)

text \<open>
  A server with no permission at all, holding listener 7 under \<^verbatim>\<open>127.0.0.1:65535\<close> (and 8
  under \<^verbatim>\<open>/tmp/t.sock\<close>): the cancel request closes the listener and is replied true.
\<close>

lemma cancel_tcpip_registered: "cancelTcpipForward [''127.0.0.1:65535'' \<mapsto> 7] fairWorld
        \<lparr>Type = ''cancel-tcpip-forward'', WantReply = True, Payload = payload_localhost_65535\<rparr> =
      (([ListenerClose 7, Reply True], Returned), Map.empty)"
    by (simp add: cancelTcpipForward_def decode_localhost_65535 address_localhost_65535
        LoadAndDelete_def fairWorld_def)

lemma cancel_streamlocal_registered: "cancelStreamlocalForward [''/tmp/t.sock'' \<mapsto> 8] fairWorld
        \<lparr>Type = ''cancel-streamlocal-forward@openssh.com'', WantReply = True,
         Payload = payload_sock\<rparr> =
      (([ListenerClose 8, Reply True], Returned), Map.empty)"
    by (simp add: cancelStreamlocalForward_def decode_sock LoadAndDelete_def fairWorld_def)

theorem cancel_requests_not_gated_witness:
  "HandleGlobalRequests denyAll [''127.0.0.1:65535'' \<mapsto> 7]
     [(\<lparr>Type = ''cancel-tcpip-forward'', WantReply = True, Payload = payload_localhost_65535\<rparr>,
       fairWorld)] =
     (([Go [ListenerClose 7, Reply True]], Returned), Map.empty)
   \<and> HandleGlobalRequests denyAll [''/tmp/t.sock'' \<mapsto> 8]
     [(\<lparr>Type = ''cancel-streamlocal-forward@openssh.com'', WantReply = True,
        Payload = payload_sock\<rparr>, fairWorld)] =
     (([Go [ListenerClose 8, Reply True]], Returned), Map.empty)"
proof -
  have c: "HandleGlobalRequests denyAll [''127.0.0.1:65535'' \<mapsto> 7]
     [(\<lparr>Type = ''cancel-tcpip-forward'', WantReply = True, Payload = payload_localhost_65535\<rparr>,
       fairWorld)] = (([Go [ListenerClose 7, Reply True]], Returned), Map.empty)"
    using cancel_requests_not_gated [of
        "\<lparr>Type = ''cancel-tcpip-forward'', WantReply = True, Payload = payload_localhost_65535\<rparr>"
        denyAll "[''127.0.0.1:65535'' \<mapsto> 7]" fairWorld]
    by (simp only: cancel_tcpip_registered) (simp add: spawn_def)
  have d: "HandleGlobalRequests denyAll [''/tmp/t.sock'' \<mapsto> 8]
     [(\<lparr>Type = ''cancel-streamlocal-forward@openssh.com'', WantReply = True,
        Payload = payload_sock\<rparr>, fairWorld)] =
     (([Go [ListenerClose 8, Reply True]], Returned), Map.empty)"
    using cancel_requests_not_gated [of
        "\<lparr>Type = ''cancel-streamlocal-forward@openssh.com'', WantReply = True,
          Payload = payload_sock\<rparr>"
        denyAll "[''/tmp/t.sock'' \<mapsto> 8]" fairWorld]
    by (simp only: cancel_streamlocal_registered) (simp add: spawn_def)
  show ?thesis using c d by simp
qed

subsection \<open>An exec request with an empty argv\<close>

text \<open>
  Claim C6. When the command of an exec request splits into an empty argv,
  \<^verbatim>\<open>handleExecRequest\<close> reaches \<^verbatim>\<open>cmdSlice[0]\<close> and panics: it has called nothing, so no
  process is spawned, but the request is not replied to either, and the session loop (with
  the process) ends there.
\<close>

theorem exec_empty_argv_panics:
  assumes "Unmarshal_String (Payload req) = Some command" and "Parse command = Some []"
  shows "handleExecRequest Parse w req = ([], Panicked)
       \<and> (Type req = ''exec'' \<and> AllowExecute s \<longrightarrow>
            handleSession_loop Parse s shell shf ((req, w) # rest) = ([], Panicked))"
  using assms by (simp add: handleExecRequest_def andThen_Panicked)

text \<open>The empty command: nothing is called, the \<^verbatim>\<open>shell\<close> request behind it is not served.\<close>

theorem exec_empty_argv_panics_witness:
  "handleExecRequest shellwords_Parse fairWorld
     \<lparr>Type = ''exec'', WantReply = True, Payload = payload_no_command\<rparr> = ([], Panicked)
   \<and> handleSession_loop shellwords_Parse allowAll ''/bin/sh'' None
        [(\<lparr>Type = ''exec'', WantReply = True, Payload = payload_no_command\<rparr>, fairWorld),
         (\<lparr>Type = ''shell'', WantReply = True, Payload = []\<rparr>, fairWorld)] = ([], Panicked)"
  using exec_empty_argv_panics [where Parse = shellwords_Parse and command = "[]"
      and req = "\<lparr>Type = ''exec'', WantReply = True, Payload = payload_no_command\<rparr>"
      and w = fairWorld and s = allowAll and shell = "''/bin/sh''" and shf = None
      and rest = "[(\<lparr>Type = ''shell'', WantReply = True, Payload = []\<rparr>, fairWorld)]"]
  by (simp add: decode_no_command split_nothing allowAll_def andThen_Panicked)

subsection \<open>Session requests with a short payload\<close>

lemma parseDims_short: "length b < 8 \<Longrightarrow> parseDims b = None"
  by (auto simp add: parseDims_def Uint32_def split: option.splits)

text \<open>
  Claim C5. A \<^verbatim>\<open>window-change\<close> payload shorter than 8 bytes, a \<^verbatim>\<open>pty-req\<close> payload shorter
  than 4 bytes (execution permitted) and a \<^verbatim>\<open>subsystem\<close> payload shorter than 4 bytes make
  the session loop panic on its index and slice expressions: nothing is replied or logged,
  and the requests behind are not served.
\<close>

theorem short_payload_panics:
  "(Type req = ''window-change'' \<and> length (Payload req) < 8 \<longrightarrow>
      handleSession_loop Parse s shell shf ((req, w) # rest) = ([], Panicked))
   \<and> (Type req = ''pty-req'' \<and> AllowExecute s \<and> length (Payload req) < 4 \<longrightarrow>
      handleSession_loop Parse s shell shf ((req, w) # rest) = ([], Panicked))
   \<and> (Type req = ''subsystem'' \<and> length (Payload req) < 4 \<longrightarrow>
      handleSession_loop Parse s shell shf ((req, w) # rest) = ([], Panicked))"
  by (simp add: parseDims_short handleSessionSubSystem_def andThen_Panicked)

text \<open>The three requests with an empty payload, each followed by a \<^verbatim>\<open>shell\<close> request.\<close>

theorem short_payload_panics_witness:
  "handleSession_loop shellwords_Parse allowAll ''/bin/sh'' None
     [(\<lparr>Type = ''window-change'', WantReply = False, Payload = []\<rparr>, fairWorld),
      (\<lparr>Type = ''shell'', WantReply = True, Payload = []\<rparr>, fairWorld)] = ([], Panicked)
   \<and> handleSession_loop shellwords_Parse allowAll ''/bin/sh'' None
     [(\<lparr>Type = ''pty-req'', WantReply = True, Payload = []\<rparr>, fairWorld),
      (\<lparr>Type = ''shell'', WantReply = True, Payload = []\<rparr>, fairWorld)] = ([], Panicked)
   \<and> handleSession_loop shellwords_Parse allowAll ''/bin/sh'' None
     [(\<lparr>Type = ''subsystem'', WantReply = True, Payload = []\<rparr>, fairWorld),
      (\<lparr>Type = ''shell'', WantReply = True, Payload = []\<rparr>, fairWorld)] = ([], Panicked)"
proof -
  have a: "handleSession_loop shellwords_Parse allowAll ''/bin/sh'' None
     [(\<lparr>Type = ''window-change'', WantReply = False, Payload = []\<rparr>, fairWorld),
      (\<lparr>Type = ''shell'', WantReply = True, Payload = []\<rparr>, fairWorld)] = ([], Panicked)"
    using short_payload_panics [where req = "\<lparr>Type = ''window-change'', WantReply = False, Payload = []\<rparr>"
        and Parse = shellwords_Parse and s = allowAll and shell = "''/bin/sh''" and shf = None
        and w = fairWorld
        and rest = "[(\<lparr>Type = ''shell'', WantReply = True, Payload = []\<rparr>, fairWorld)]"]
    by simp
  have b: "handleSession_loop shellwords_Parse allowAll ''/bin/sh'' None
     [(\<lparr>Type = ''pty-req'', WantReply = True, Payload = []\<rparr>, fairWorld),
      (\<lparr>Type = ''shell'', WantReply = True, Payload = []\<rparr>, fairWorld)] = ([], Panicked)"
    using short_payload_panics [where req = "\<lparr>Type = ''pty-req'', WantReply = True, Payload = []\<rparr>"
        and Parse = shellwords_Parse and s = allowAll and shell = "''/bin/sh''" and shf = None
        and w = fairWorld
        and rest = "[(\<lparr>Type = ''shell'', WantReply = True, Payload = []\<rparr>, fairWorld)]"]
    by (simp add: allowAll_def)
  have c: "handleSession_loop shellwords_Parse allowAll ''/bin/sh'' None
     [(\<lparr>Type = ''subsystem'', WantReply = True, Payload = []\<rparr>, fairWorld),
      (\<lparr>Type = ''shell'', WantReply = True, Payload = []\<rparr>, fairWorld)] = ([], Panicked)"
    using short_payload_panics [where req = "\<lparr>Type = ''subsystem'', WantReply = True, Payload = []\<rparr>"
        and Parse = shellwords_Parse and s = allowAll and shell = "''/bin/sh''" and shf = None
        and w = fairWorld
        and rest = "[(\<lparr>Type = ''shell'', WantReply = True, Payload = []\<rparr>, fairWorld)]"]
    by simp
  show ?thesis using a b c by simp
qed

subsection \<open>Cancelling a forward\<close>

text \<open>
  Claim C2. \<^verbatim>\<open>cancelTcpipForward\<close> on an address that has no entry in the registry replies
  false, logs, and then, having no \<^verbatim>\<open>return\<close> there, calls \<^verbatim>\<open>Close\<close> on the nil listener: it
  panics. The registry is unchanged.
\<close>

theorem cancel_tcpip_unregistered_panics:
  assumes "Unmarshal_AddrPort (Payload req) = Some (addr, port)"
    and "reg (JoinHostPort addr (Itoa (unat port))) = None"
  shows "cancelTcpipForward reg w req =
           (([Reply False, Log ''failed to find listener''], Panicked), reg)"
  using assms by (simp add: cancelTcpipForward_def LoadAndDelete_def fun_upd_idem)

text \<open>The request \<^verbatim>\<open>cancel-tcpip-forward\<close> for 127.0.0.1:65535 on an empty registry.\<close>

theorem cancel_tcpip_unregistered_panics_witness:
  "cancelTcpipForward Map.empty fairWorld
     \<lparr>Type = ''cancel-tcpip-forward'', WantReply = True, Payload = payload_localhost_65535\<rparr> =
   (([Reply False, Log ''failed to find listener''], Panicked), Map.empty)"
  using cancel_tcpip_unregistered_panics [where addr = "''127.0.0.1''" and port = 65535
      and req = "\<lparr>Type = ''cancel-tcpip-forward'', WantReply = True, Payload = payload_localhost_65535\<rparr>"
      and reg = Map.empty and w = fairWorld]
  by (simp add: decode_localhost_65535)

text \<open>
  \<^verbatim>\<open>cancelStreamlocalForward\<close> returns after the reply in that case. On a registered address
  both handlers take the entry out and close the listener; when the close fails they
  call \<^verbatim>\<open>Reply(false)\<close> and then \<^verbatim>\<open>Reply(true)\<close>.
\<close>

lemma cancel_streamlocal_unregistered:
  assumes "Unmarshal_String (Payload req) = Some socketPath" and "reg socketPath = None"
  shows "cancelStreamlocalForward reg w req =
           (([Log ''failed to find listener'', Reply False], Returned), reg)"
  using assms by (simp add: cancelStreamlocalForward_def LoadAndDelete_def fun_upd_idem)

lemma cancel_registered:
  assumes "Unmarshal_AddrPort (Payload req) = Some (addr, port)"
    and "reg (JoinHostPort addr (Itoa (unat port))) = Some ln"
  shows "cancelTcpipForward reg w req =
           ((if Close_err w
             then ([ListenerClose ln, Reply False, Log ''failed to close'', Reply True], Returned)
             else ([ListenerClose ln, Reply True], Returned)),
            reg(JoinHostPort addr (Itoa (unat port)) := None))"
  using assms by (simp add: cancelTcpipForward_def LoadAndDelete_def)

lemma cancel_streamlocal_registered_general:
  assumes "Unmarshal_String (Payload req) = Some socketPath" and "reg socketPath = Some ln"
  shows "cancelStreamlocalForward reg w req =
           ((if Close_err w
             then ([ListenerClose ln, Reply False, Log ''failed to close'', Reply True], Returned)
             else ([ListenerClose ln, Reply True], Returned)),
            reg(socketPath := None))"
  using assms by (simp add: cancelStreamlocalForward_def LoadAndDelete_def)

subsection \<open>The calls of a run\<close>

lemma allCalls_Nil: "allCalls [] = []"
  by (simp add: allCalls_def)

lemma allCalls_Cons: "allCalls (e # es) = calls e @ allCalls es"
  by (simp add: allCalls_def)

lemma allCalls_append: "allCalls (xs @ ys) = allCalls xs @ allCalls ys"
  by (simp add: allCalls_def)

lemma calls_Go: "calls (Go es) = Go es # allCalls es"
  by (simp add: allCalls_def)

subsection \<open>Failing pipes and a failing spawn\<close>

text \<open>
  Claim C7, as the code has it. For an exec request with a command and a non-empty argv:
  when one of the three pipes cannot be created, the handler returns, and neither a true
  reply nor the start of the process is among its calls; when the pipes are created and
  \<^verbatim>\<open>cmd.Run()\<close> fails to start the process, the true reply has been sent before, and the
  handler sends \<^verbatim>\<open>exit-status\<close> 0 and closes the channel.
\<close>

theorem exec_pipe_or_spawn_failure:
  assumes "Unmarshal_String (Payload req) = Some command"
    and "Parse command = Some (name # args)"
  shows "(StdinPipe_err w \<or> StdoutPipe_err w \<or> StderrPipe_err w \<longrightarrow>
            snd (handleExecRequest Parse w req) = Returned
          \<and> Reply True \<notin> set (allCalls (fst (handleExecRequest Parse w req)))
          \<and> Run (name # args) \<notin> set (allCalls (fst (handleExecRequest Parse w req))))
       \<and> (\<not> StdinPipe_err w \<and> \<not> StdoutPipe_err w \<and> \<not> StderrPipe_err w
            \<and> Run_result w = RunFailed \<longrightarrow>
            handleExecRequest Parse w req =
              ([StdinPipe, StdoutPipe, StderrPipe,
                Go [Copy ''stdin'' ''connection''],
                Go [Copy ''connection'' ''stdout''],
                Go [Copy ''connection'' ''stderr''],
                Reply True,
                Run (name # args),
                SendRequest ''exit-status'' False (Marshal_exitStatusMsg 0),
                ChannelClose], Returned))"
  using assms
  by (simp add: handleExecRequest_def exitCode_def allCalls_def)

text \<open>The command \<^verbatim>\<open>/bin/echo hello\<close>, once with a failing stdout pipe, once with a failing start.\<close>

theorem exec_pipe_or_spawn_failure_witness:
  "snd (handleExecRequest shellwords_Parse (fairWorld\<lparr>StdoutPipe_err := True\<rparr>)
         \<lparr>Type = ''exec'', WantReply = True, Payload = payload_echo\<rparr>) = Returned
   \<and> Reply True \<notin> set (allCalls (fst (handleExecRequest shellwords_Parse
         (fairWorld\<lparr>StdoutPipe_err := True\<rparr>)
         \<lparr>Type = ''exec'', WantReply = True, Payload = payload_echo\<rparr>)))
   \<and> handleExecRequest shellwords_Parse (fairWorld\<lparr>Run_result := RunFailed\<rparr>)
         \<lparr>Type = ''exec'', WantReply = True, Payload = payload_echo\<rparr> =
       ([StdinPipe, StdoutPipe, StderrPipe,
         Go [Copy ''stdin'' ''connection''],
         Go [Copy ''connection'' ''stdout''],
         Go [Copy ''connection'' ''stderr''],
         Reply True,
         Run [''/bin/echo'', ''hello''],
         SendRequest ''exit-status'' False (Marshal_exitStatusMsg 0),
         ChannelClose], Returned)"
  using exec_pipe_or_spawn_failure [where Parse = shellwords_Parse
      and command = "''/bin/echo hello''" and name = "''/bin/echo''" and args = "[''hello'']"
      and req = "\<lparr>Type = ''exec'', WantReply = True, Payload = payload_echo\<rparr>"
      and w = "fairWorld\<lparr>StdoutPipe_err := True\<rparr>"]
    exec_pipe_or_spawn_failure [where Parse = shellwords_Parse
      and command = "''/bin/echo hello''" and name = "''/bin/echo''" and args = "[''hello'']"
      and req = "\<lparr>Type = ''exec'', WantReply = True, Payload = payload_echo\<rparr>"
      and w = "fairWorld\<lparr>Run_result := RunFailed\<rparr>"]
  by (simp add: decode_echo split_echo fairWorld_def)

text \<open>
  The claim as stated has the handler never reply true and the channel closed in each of
  these failures. With \<^verbatim>\<open>/bin/echo hello\<close>: when the start of the process fails,
  \<^verbatim>\<open>Reply(true)\<close> is among the calls; when the stdin pipe fails, closing the channel is not.
\<close>

theorem exec_failure_counterexample:
  "Reply True \<in> set (allCalls (fst (handleExecRequest shellwords_Parse
      (fairWorld\<lparr>Run_result := RunFailed\<rparr>)
      \<lparr>Type = ''exec'', WantReply = True, Payload = payload_echo\<rparr>)))
   \<and> ChannelClose \<notin> set (allCalls (fst (handleExecRequest shellwords_Parse
      (fairWorld\<lparr>StdinPipe_err := True\<rparr>)
      \<lparr>Type = ''exec'', WantReply = True, Payload = payload_echo\<rparr>)))"
  by (simp add: handleExecRequest_def decode_echo split_echo fairWorld_def allCalls_def)

subsection \<open>Storing under a key that is taken\<close>

lemma no_ListenerClose_tcpip_loop:
  "ListenerClose old \<notin> set (allCalls (handleTcpipForward_loop ln addr port cs))"
  by (induction cs)
    (auto simp add: allCalls_Cons allCalls_Nil allCalls_append forwardedTcpip_conn_def
      split: option.splits)

lemma no_ListenerClose_streamlocal_loop:
  "ListenerClose old \<notin> set (allCalls (handleStreamlocalForward_loop ln socketPath cs))"
  by (induction cs)
    (auto simp add: allCalls_Cons allCalls_Nil allCalls_append forwardedStreamlocal_conn_def)

text \<open>
  Claim C8, as the code has it. When \<^verbatim>\<open>handleTcpipForward\<close> or \<^verbatim>\<open>handleStreamlocalForward\<close>
  stores its new listener under a key that holds another listener, the entry is
  overwritten, and closing the previous listener is not among the calls of the handler
  and of the goroutines it starts.
\<close>

theorem store_overwrites_without_close:
  "(Unmarshal_AddrPort (Payload req) = Some (addr, port) \<and> Listen_result w = Some ln
      \<and> reg (JoinHostPort addr (Itoa (unat port))) = Some old \<and> old \<noteq> ln \<longrightarrow>
      snd (handleTcpipForward reg w req) = reg(JoinHostPort addr (Itoa (unat port)) \<mapsto> ln)
    \<and> ListenerClose old \<notin> set (allCalls (fst (fst (handleTcpipForward reg w req)))))
   \<and> (Unmarshal_String (Payload req) = Some socketPath \<and> Listen_result w = Some ln
      \<and> reg socketPath = Some old \<and> old \<noteq> ln \<longrightarrow>
      snd (handleStreamlocalForward reg w req) = reg(socketPath \<mapsto> ln)
    \<and> ListenerClose old \<notin> set (allCalls (fst (fst (handleStreamlocalForward reg w req)))))"
  by (auto simp add: handleTcpipForward_def handleStreamlocalForward_def Store_def
      allCalls_Cons allCalls_Nil allCalls_append
      no_ListenerClose_tcpip_loop no_ListenerClose_streamlocal_loop)

text \<open>Listener 1 registered, listener 2 bound for the same address and for the same socket path.\<close>

theorem store_overwrites_without_close_witness:
  "snd (handleTcpipForward [''127.0.0.1:0'' \<mapsto> 1] (fairWorld\<lparr>Listen_result := Some 2\<rparr>)
         \<lparr>Type = ''tcpip-forward'', WantReply = True, Payload = payload_localhost_0\<rparr>)
     = [''127.0.0.1:0'' \<mapsto> 2]
   \<and> ListenerClose 1 \<notin> set (allCalls (fst (fst (handleTcpipForward [''127.0.0.1:0'' \<mapsto> 1]
         (fairWorld\<lparr>Listen_result := Some 2\<rparr>)
         \<lparr>Type = ''tcpip-forward'', WantReply = True, Payload = payload_localhost_0\<rparr>))))
   \<and> snd (handleStreamlocalForward [''/tmp/t.sock'' \<mapsto> 1] (fairWorld\<lparr>Listen_result := Some 2\<rparr>)
         \<lparr>Type = ''streamlocal-forward@openssh.com'', WantReply = True, Payload = payload_sock\<rparr>)
     = [''/tmp/t.sock'' \<mapsto> 2]
   \<and> ListenerClose 1 \<notin> set (allCalls (fst (fst (handleStreamlocalForward [''/tmp/t.sock'' \<mapsto> 1]
         (fairWorld\<lparr>Listen_result := Some 2\<rparr>)
         \<lparr>Type = ''streamlocal-forward@openssh.com'', WantReply = True, Payload = payload_sock\<rparr>))))"
  using store_overwrites_without_close [where addr = "''127.0.0.1''" and port = 0
      and req = "\<lparr>Type = ''tcpip-forward'', WantReply = True, Payload = payload_localhost_0\<rparr>"
      and w = "fairWorld\<lparr>Listen_result := Some 2\<rparr>" and ln = 2 and old = 1
      and reg = "[''127.0.0.1:0'' \<mapsto> 1]"]
    store_overwrites_without_close [where socketPath = "''/tmp/t.sock''"
      and req = "\<lparr>Type = ''streamlocal-forward@openssh.com'', WantReply = True, Payload = payload_sock\<rparr>"
      and w = "fairWorld\<lparr>Listen_result := Some 2\<rparr>" and ln = 2 and old = 1
      and reg = "[''/tmp/t.sock'' \<mapsto> 1]"]
  by (simp add: decode_localhost_0 decode_sock address_localhost_0 fairWorld_def)

text \<open>
  The claim as stated has the previous listener closed. Two \<^verbatim>\<open>tcpip-forward\<close> requests for
  127.0.0.1 port 0, the first bound to listener 1, the second to listener 2: after the
  second the registry holds listener 2, and no call closes listener 1.
\<close>

theorem store_collision_counterexample:
  "snd (handleTcpipForward (snd (handleTcpipForward Map.empty fairWorld
           \<lparr>Type = ''tcpip-forward'', WantReply = True, Payload = payload_localhost_0\<rparr>))
         (fairWorld\<lparr>Listen_result := Some 2\<rparr>)
         \<lparr>Type = ''tcpip-forward'', WantReply = True, Payload = payload_localhost_0\<rparr>)
     = [''127.0.0.1:0'' \<mapsto> 2]
   \<and> ListenerClose 1 \<notin> set (allCalls (fst (fst (handleTcpipForward
         (snd (handleTcpipForward Map.empty fairWorld
           \<lparr>Type = ''tcpip-forward'', WantReply = True, Payload = payload_localhost_0\<rparr>))
         (fairWorld\<lparr>Listen_result := Some 2\<rparr>)
         \<lparr>Type = ''tcpip-forward'', WantReply = True, Payload = payload_localhost_0\<rparr>))))"
  by (simp add: handleTcpipForward_def decode_localhost_0 address_localhost_0 fairWorld_def
      Store_def allCalls_def)

subsection \<open>Closing the two ends of a bridge\<close>

text \<open>
  The two runs of a direct bridge: the closure runs in the goroutine when its
  \<^verbatim>\<open>closeOnce.Do\<close> comes first, in the handler otherwise.
\<close>

lemma direct_bridge_traces:
  "closeOnce_bridge True = [Go [Copy ''channel'' ''conn'', ChannelClose, ConnClose], Copy ''conn'' ''channel'']
   \<and> closeOnce_bridge False = [Go [Copy ''channel'' ''conn''], Copy ''conn'' ''channel'', ChannelClose, ConnClose]"
  by (simp add: closeOnce_bridge_def Once_Do_def closer_def Let_def)

lemma count_bridge:
  "count_list (allCalls (closeOnce_bridge g)) ChannelClose = 1
   \<and> count_list (allCalls (closeOnce_bridge g)) ConnClose = 1"
  by (simp add: closeOnce_bridge_def Once_Do_def closer_def allCalls_def Let_def)

text \<open>
  Claim C3, as the code has it. In a direct-tcpip and in a direct-streamlocal bridge
  (payload decoded, channel accepted, dial succeeded) the channel and the connection are
  each closed exactly once, whichever \<^verbatim>\<open>closeOnce.Do\<close> comes first: the latch lets the
  closure run once. The reverse bridges of \<^verbatim>\<open>handleTcpipForward\<close> and
  \<^verbatim>\<open>handleStreamlocalForward\<close> have no latch: each of the two copy goroutines closes the
  connection and the channel, so \<^verbatim>\<open>Close\<close> is called twice on each.
\<close>

theorem bridge_closes:
  "(Unmarshal_DirectTcpip (ExtraData newChannel) = Some m \<and> \<not> Accept_err w \<and> \<not> Dial_err w \<longrightarrow>
      count_list (allCalls (fst (handleDirectTcpip w newChannel))) ChannelClose = 1
    \<and> count_list (allCalls (fst (handleDirectTcpip w newChannel))) ConnClose = 1)
   \<and> (Unmarshal_DirectStreamlocal (ExtraData newChannel) = Some m' \<and> \<not> Accept_err w \<and> \<not> Dial_err w \<longrightarrow>
      count_list (allCalls (fst (handleDirectStreamlocal w newChannel))) ChannelClose = 1
    \<and> count_list (allCalls (fst (handleDirectStreamlocal w newChannel))) ConnClose = 1)
   \<and> (\<not> OpenChannel_err c \<longrightarrow>
      count_list (allCalls (forwardedTcpip_conn addr port c)) ChannelClose = 2
    \<and> count_list (allCalls (forwardedTcpip_conn addr port c)) ConnClose = 2
    \<and> count_list (allCalls (forwardedStreamlocal_conn socketPath c)) ChannelClose = 2
    \<and> count_list (allCalls (forwardedStreamlocal_conn socketPath c)) ConnClose = 2)"
proof -
  have a: "count_list (allCalls (fst (handleDirectTcpip w newChannel))) ChannelClose = 1
    \<and> count_list (allCalls (fst (handleDirectTcpip w newChannel))) ConnClose = 1"
    if "Unmarshal_DirectTcpip (ExtraData newChannel) = Some m" "\<not> Accept_err w" "\<not> Dial_err w"
    using that count_bridge [of "goroutine_first w"]
    by (cases m) (simp add: handleDirectTcpip_def allCalls_Cons allCalls_append)
  have b: "count_list (allCalls (fst (handleDirectStreamlocal w newChannel))) ChannelClose = 1
    \<and> count_list (allCalls (fst (handleDirectStreamlocal w newChannel))) ConnClose = 1"
    if "Unmarshal_DirectStreamlocal (ExtraData newChannel) = Some m'" "\<not> Accept_err w" "\<not> Dial_err w"
    using that count_bridge [of "goroutine_first w"]
    by (cases m') (simp add: handleDirectStreamlocal_def allCalls_Cons allCalls_append)
  have c: "count_list (allCalls (forwardedTcpip_conn addr port c)) ChannelClose = 2
    \<and> count_list (allCalls (forwardedTcpip_conn addr port c)) ConnClose = 2
    \<and> count_list (allCalls (forwardedStreamlocal_conn socketPath c)) ChannelClose = 2
    \<and> count_list (allCalls (forwardedStreamlocal_conn socketPath c)) ConnClose = 2"
    if "\<not> OpenChannel_err c"
    using that
    by (simp add: forwardedTcpip_conn_def forwardedStreamlocal_conn_def allCalls_def
        split: option.splits)
  show ?thesis using a b c by blast
qed

text \<open>
  Direct bridges with either order of the two \<^verbatim>\<open>Do\<close> calls, and the reverse bridges of one
  accepted connection.
\<close>

theorem bridge_closes_witness:
  "count_list (allCalls (fst (handleDirectTcpip (fairWorld\<lparr>goroutine_first := True\<rparr>)
      \<lparr>ChannelType = ''direct-tcpip'', ExtraData = extra_direct_tcpip\<rparr>))) ChannelClose = 1
   \<and> count_list (allCalls (fst (handleDirectTcpip fairWorld
      \<lparr>ChannelType = ''direct-tcpip'', ExtraData = extra_direct_tcpip\<rparr>))) ChannelClose = 1
   \<and> count_list (allCalls (fst (handleDirectStreamlocal fairWorld
      \<lparr>ChannelType = ''direct-streamlocal@openssh.com'', ExtraData = extra_direct_streamlocal\<rparr>)))
        ConnClose = 1
   \<and> count_list (allCalls (forwardedTcpip_conn ''127.0.0.1'' 0 someConn)) ChannelClose = 2
   \<and> count_list (allCalls (forwardedStreamlocal_conn ''/tmp/t.sock'' someConn)) ConnClose = 2"
  using bridge_closes [where newChannel = "\<lparr>ChannelType = ''direct-tcpip'', ExtraData = extra_direct_tcpip\<rparr>"
      and m = "(''127.0.0.1'', 8080, ''127.0.0.1'', 50000)"
      and w = "fairWorld\<lparr>goroutine_first := True\<rparr>"]
    bridge_closes [where newChannel = "\<lparr>ChannelType = ''direct-tcpip'', ExtraData = extra_direct_tcpip\<rparr>"
      and m = "(''127.0.0.1'', 8080, ''127.0.0.1'', 50000)"
      and w = fairWorld]
    bridge_closes [where newChannel = "\<lparr>ChannelType = ''direct-streamlocal@openssh.com'', ExtraData = extra_direct_streamlocal\<rparr>"
      and m' = "(''/tmp/t.sock'', [], 0)"
      and w = fairWorld and c = someConn and addr = "''127.0.0.1''" and port = 0
      and socketPath = "''/tmp/t.sock''"]
  by (simp add: decode_direct_tcpip decode_direct_streamlocal fairWorld_def someConn_def)

text \<open>
  The claim as stated has the closing run exactly once in every bridge. A
  \<^verbatim>\<open>tcpip-forward\<close> for 127.0.0.1 port 0 on which one connection is accepted: the channel
  and the connection are each closed twice.
\<close>

theorem forwarded_bridge_counterexample:
  "count_list (allCalls (fst (fst (handleTcpipForward Map.empty (fairWorld\<lparr>accepted := [someConn]\<rparr>)
      \<lparr>Type = ''tcpip-forward'', WantReply = True, Payload = payload_localhost_0\<rparr>)))) ChannelClose = 2
   \<and> count_list (allCalls (fst (fst (handleTcpipForward Map.empty (fairWorld\<lparr>accepted := [someConn]\<rparr>)
      \<lparr>Type = ''tcpip-forward'', WantReply = True, Payload = payload_localhost_0\<rparr>)))) ConnClose = 2"
  by (simp add: handleTcpipForward_def decode_localhost_0 fairWorld_def someConn_def
      forwardedTcpip_conn_def allCalls_def)

subsection \<open>Permission gating\<close>

text \<open>Each gated operation with its permission off, then with its permission on.\<close>

lemma denied_tcpip_forward:
  "\<not> AllowTcpipForward s \<Longrightarrow> Type req = ''tcpip-forward'' \<Longrightarrow>
     HandleGlobalRequests s reg [(req, w)] =
       (([Log ''tcpip-forward not allowed'', Reply False], Returned), reg)"
  by (simp add: andThen_def)

lemma denied_streamlocal_forward:
  "\<not> AllowStreamlocalForward s \<Longrightarrow> Type req = ''streamlocal-forward@openssh.com'' \<Longrightarrow>
     HandleGlobalRequests s reg [(req, w)] =
       (([Log ''streamlocal-forward not allowed'', Reply False], Returned), reg)"
  by (simp add: andThen_def)

lemma denied_direct_tcpip:
  "\<not> AllowDirectTcpip s \<Longrightarrow> ChannelType newChannel = ''direct-tcpip'' \<Longrightarrow>
     handleChannel Parse s shell newChannel w requests =
       ([Reject Prohibited ''direct-tcpip not allowed''], Returned)"
  by (simp add: handleChannel_def)

lemma denied_direct_streamlocal:
  "\<not> AllowDirectStreamlocal s \<Longrightarrow> ChannelType newChannel = ''direct-streamlocal@openssh.com'' \<Longrightarrow>
     handleChannel Parse s shell newChannel w requests =
       ([Reject Prohibited ''direct-streamlocal (Unix domain socket) not allowed''], Returned)"
  by (simp add: handleChannel_def)

lemma denied_exec:
  "\<not> AllowExecute s \<Longrightarrow> Type req = ''exec'' \<Longrightarrow>
     handleSession_loop Parse s shell shf [(req, w)] =
       ([Log ''execution not allowed (exec)'', Reply False], Returned)"
  by (simp add: andThen_def)

lemma denied_pty_req:
  "\<not> AllowExecute s \<Longrightarrow> Type req = ''pty-req'' \<Longrightarrow>
     handleSession_loop Parse s shell shf [(req, w)] =
       ([Log ''execution not allowed (pty-req)'', Reply False], Returned)"
  by (simp add: andThen_def)

lemma denied_sftp:
  "\<not> AllowSftp s \<Longrightarrow> Type req = ''subsystem'' \<Longrightarrow> 4 \<le> length (Payload req) \<Longrightarrow>
   drop 4 (Payload req) = ''sftp'' \<Longrightarrow>
     handleSession_loop Parse s shell shf [(req, w)] =
       ([Log ''sftp not allowed'', Reply False], Returned)"
  by (simp add: andThen_def handleSessionSubSystem_def)

lemma allowed_tcpip_forward:
  "AllowTcpipForward s \<Longrightarrow> Type req = ''tcpip-forward'' \<Longrightarrow>
   Unmarshal_AddrPort (Payload req) = Some (addr, port) \<Longrightarrow> Listen_result w = Some ln \<Longrightarrow>
     HandleGlobalRequests s reg [(req, w)] =
       (([Go ([Listen ''tcp'' (JoinHostPort addr (Itoa (unat port))), Reply True,
               Go [Wait, ListenerClose ln, Log ''connection closed'']]
              @ handleTcpipForward_loop ln addr port (accepted w))], Returned),
        reg(JoinHostPort addr (Itoa (unat port)) \<mapsto> ln))"
  by (simp add: andThen_def handleTcpipForward_def spawn_def Store_def)

lemma allowed_streamlocal_forward:
  "AllowStreamlocalForward s \<Longrightarrow> Type req = ''streamlocal-forward@openssh.com'' \<Longrightarrow>
   Unmarshal_String (Payload req) = Some socketPath \<Longrightarrow> Listen_result w = Some ln \<Longrightarrow>
     HandleGlobalRequests s reg [(req, w)] =
       (([Go ([Listen ''unix'' socketPath, Reply True,
               Go [Wait, ListenerClose ln, Log ''connection closed'']]
              @ handleStreamlocalForward_loop ln socketPath (accepted w))], Returned),
        reg(socketPath \<mapsto> ln))"
  by (simp add: andThen_def handleStreamlocalForward_def spawn_def Store_def)

lemma allowed_direct_tcpip:
  "AllowDirectTcpip s \<Longrightarrow> ChannelType newChannel = ''direct-tcpip'' \<Longrightarrow>
   Unmarshal_DirectTcpip (ExtraData newChannel) = Some (remoteAddr, remotePort, sourceAddr, sourcePort) \<Longrightarrow>
   \<not> Accept_err w \<Longrightarrow> \<not> Dial_err w \<Longrightarrow>
     handleChannel Parse s shell newChannel w requests =
       ([Accept, Go [DiscardRequests],
         Dial ''tcp'' (JoinHostPort remoteAddr (Itoa (unat remotePort)))]
        @ closeOnce_bridge (goroutine_first w), Returned)"
  by (simp add: handleChannel_def handleDirectTcpip_def)

lemma allowed_direct_streamlocal:
  "AllowDirectStreamlocal s \<Longrightarrow> ChannelType newChannel = ''direct-streamlocal@openssh.com'' \<Longrightarrow>
   Unmarshal_DirectStreamlocal (ExtraData newChannel) = Some (socketPath, reservedStr, reservedNum) \<Longrightarrow>
   \<not> Accept_err w \<Longrightarrow> \<not> Dial_err w \<Longrightarrow>
     handleChannel Parse s shell newChannel w requests =
       ([Accept, Go [DiscardRequests], Dial ''unix'' socketPath]
        @ closeOnce_bridge (goroutine_first w), Returned)"
  by (simp add: handleChannel_def handleDirectStreamlocal_def)

lemma allowed_exec:
  "AllowExecute s \<Longrightarrow> Type req = ''exec'' \<Longrightarrow>
   Unmarshal_String (Payload req) = Some command \<Longrightarrow> Parse command = Some (name # args) \<Longrightarrow>
   \<not> StdinPipe_err w \<Longrightarrow> \<not> StdoutPipe_err w \<Longrightarrow> \<not> StderrPipe_err w \<Longrightarrow>
     handleSession_loop Parse s shell shf [(req, w)] =
       ([StdinPipe, StdoutPipe, StderrPipe,
         Go [Copy ''stdin'' ''connection''],
         Go [Copy ''connection'' ''stdout''],
         Go [Copy ''connection'' ''stderr''],
         Reply True,
         Run (name # args),
         SendRequest ''exit-status'' False
           (Marshal_exitStatusMsg (word_of_int (exitCode (Run_result w)))),
         ChannelClose], Returned)"
  by (simp add: andThen_def handleExecRequest_def)

lemma allowed_pty_req:
  "AllowExecute s \<Longrightarrow> Type req = ''pty-req'' \<Longrightarrow> 4 \<le> length (Payload req) \<Longrightarrow>
   unat ((of_char (Payload req ! 3) :: 8 word) + 4) \<le> length (Payload req) \<Longrightarrow>
   parseDims (drop (unat ((of_char (Payload req ! 3) :: 8 word) + 4)) (Payload req)) = Some (wd, ht) \<Longrightarrow>
   createPty_result w = Some f \<Longrightarrow>
     handleSession_loop Parse s shell shf [(req, w)] =
       ([CreatePty shell, SetWinsize f wd ht, Reply True], Returned)"
  by (simp add: andThen_def)

lemma allowed_sftp:
  "AllowSftp s \<Longrightarrow> Type req = ''subsystem'' \<Longrightarrow> 4 \<le> length (Payload req) \<Longrightarrow>
   drop 4 (Payload req) = ''sftp'' \<Longrightarrow>
     \<exists>rest. handleSession_loop Parse s shell shf [(req, w)] =
       (Reply True # NewServer # rest, Returned)"
  by (simp add: andThen_def handleSessionSubSystem_def split: ServeResult.splits)

text \<open>
  Claim C1, as the code has it. For each of the six permissions: with the permission off,
  the gated operation is rejected and nothing else is called (a channel open gets
  \<^verbatim>\<open>Reject\<close> with the code \<^verbatim>\<open>Prohibited\<close> and a reason; a request gets a log line and
  \<^verbatim>\<open>Reply(false)\<close>; the registry is unchanged; no bind, no dial, no process). With the
  permission on, a valid payload, and the calls on the collaborators succeeding (accept,
  bind, dial, pipes, pty), the operation is carried out and answered with success. The
  operations gated by \<^verbatim>\<open>AllowExecute\<close> are \<^verbatim>\<open>exec\<close> and \<^verbatim>\<open>pty-req\<close>.
\<close>

theorem permission_gating:
  "(\<not> AllowTcpipForward s \<and> Type req = ''tcpip-forward'' \<longrightarrow>
      HandleGlobalRequests s reg [(req, w)] =
        (([Log ''tcpip-forward not allowed'', Reply False], Returned), reg))
   \<and> (\<not> AllowStreamlocalForward s \<and> Type req = ''streamlocal-forward@openssh.com'' \<longrightarrow>
      HandleGlobalRequests s reg [(req, w)] =
        (([Log ''streamlocal-forward not allowed'', Reply False], Returned), reg))
   \<and> (\<not> AllowDirectTcpip s \<and> ChannelType newChannel = ''direct-tcpip'' \<longrightarrow>
      handleChannel Parse s shell newChannel w requests =
        ([Reject Prohibited ''direct-tcpip not allowed''], Returned))
   \<and> (\<not> AllowDirectStreamlocal s \<and> ChannelType newChannel = ''direct-streamlocal@openssh.com'' \<longrightarrow>
      handleChannel Parse s shell newChannel w requests =
        ([Reject Prohibited ''direct-streamlocal (Unix domain socket) not allowed''], Returned))
   \<and> (\<not> AllowExecute s \<and> Type req = ''exec'' \<longrightarrow>
      handleSession_loop Parse s shell shf [(req, w)] =
        ([Log ''execution not allowed (exec)'', Reply False], Returned))
   \<and> (\<not> AllowExecute s \<and> Type req = ''pty-req'' \<longrightarrow>
      handleSession_loop Parse s shell shf [(req, w)] =
        ([Log ''execution not allowed (pty-req)'', Reply False], Returned))
   \<and> (\<not> AllowSftp s \<and> Type req = ''subsystem'' \<and> 4 \<le> length (Payload req)
        \<and> drop 4 (Payload req) = ''sftp'' \<longrightarrow>
      handleSession_loop Parse s shell shf [(req, w)] =
        ([Log ''sftp not allowed'', Reply False], Returned))
   \<and> (AllowTcpipForward s \<and> Type req = ''tcpip-forward''
        \<and> Unmarshal_AddrPort (Payload req) = Some (addr, port) \<and> Listen_result w = Some ln \<longrightarrow>
      HandleGlobalRequests s reg [(req, w)] =
        (([Go ([Listen ''tcp'' (JoinHostPort addr (Itoa (unat port))), Reply True,
                Go [Wait, ListenerClose ln, Log ''connection closed'']]
               @ handleTcpipForward_loop ln addr port (accepted w))], Returned),
         reg(JoinHostPort addr (Itoa (unat port)) \<mapsto> ln)))
   \<and> (AllowStreamlocalForward s \<and> Type req = ''streamlocal-forward@openssh.com''
        \<and> Unmarshal_String (Payload req) = Some socketPath \<and> Listen_result w = Some ln \<longrightarrow>
      HandleGlobalRequests s reg [(req, w)] =
        (([Go ([Listen ''unix'' socketPath, Reply True,
                Go [Wait, ListenerClose ln, Log ''connection closed'']]
               @ handleStreamlocalForward_loop ln socketPath (accepted w))], Returned),
         reg(socketPath \<mapsto> ln)))
   \<and> (AllowDirectTcpip s \<and> ChannelType newChannel = ''direct-tcpip''
        \<and> Unmarshal_DirectTcpip (ExtraData newChannel)
            = Some (remoteAddr, remotePort, sourceAddr, sourcePort)
        \<and> \<not> Accept_err w \<and> \<not> Dial_err w \<longrightarrow>
      handleChannel Parse s shell newChannel w requests =
        ([Accept, Go [DiscardRequests],
          Dial ''tcp'' (JoinHostPort remoteAddr (Itoa (unat remotePort)))]
         @ closeOnce_bridge (goroutine_first w), Returned))
   \<and> (AllowDirectStreamlocal s \<and> ChannelType newChannel = ''direct-streamlocal@openssh.com''
        \<and> Unmarshal_DirectStreamlocal (ExtraData newChannel) = Some (socketPath, reservedStr, reservedNum)
        \<and> \<not> Accept_err w \<and> \<not> Dial_err w \<longrightarrow>
      handleChannel Parse s shell newChannel w requests =
        ([Accept, Go [DiscardRequests], Dial ''unix'' socketPath]
         @ closeOnce_bridge (goroutine_first w), Returned))
   \<and> (AllowExecute s \<and> Type req = ''exec''
        \<and> Unmarshal_String (Payload req) = Some command \<and> Parse command = Some (name # args)
        \<and> \<not> StdinPipe_err w \<and> \<not> StdoutPipe_err w \<and> \<not> StderrPipe_err w \<longrightarrow>
      handleSession_loop Parse s shell shf [(req, w)] =
        ([StdinPipe, StdoutPipe, StderrPipe,
          Go [Copy ''stdin'' ''connection''],
          Go [Copy ''connection'' ''stdout''],
          Go [Copy ''connection'' ''stderr''],
          Reply True,
          Run (name # args),
          SendRequest ''exit-status'' False
            (Marshal_exitStatusMsg (word_of_int (exitCode (Run_result w)))),
          ChannelClose], Returned))
   \<and> (AllowExecute s \<and> Type req = ''pty-req'' \<and> 4 \<le> length (Payload req)
        \<and> unat ((of_char (Payload req ! 3) :: 8 word) + 4) \<le> length (Payload req)
        \<and> parseDims (drop (unat ((of_char (Payload req ! 3) :: 8 word) + 4)) (Payload req))
            = Some (wd, ht)
        \<and> createPty_result w = Some f \<longrightarrow>
      handleSession_loop Parse s shell shf [(req, w)] =
        ([CreatePty shell, SetWinsize f wd ht, Reply True], Returned))
   \<and> (AllowSftp s \<and> Type req = ''subsystem'' \<and> 4 \<le> length (Payload req)
        \<and> drop 4 (Payload req) = ''sftp'' \<longrightarrow>
      (\<exists>rest. handleSession_loop Parse s shell shf [(req, w)] =
        (Reply True # NewServer # rest, Returned)))"
  by (intro conjI impI; elim conjE;
      rule denied_tcpip_forward denied_streamlocal_forward denied_direct_tcpip
        denied_direct_streamlocal denied_exec denied_pty_req denied_sftp
        allowed_tcpip_forward allowed_streamlocal_forward allowed_direct_tcpip
        allowed_direct_streamlocal allowed_exec allowed_pty_req allowed_sftp;
      assumption)

text \<open>
  Every operation on the server with no permission and on the server with every
  permission, in the world where every call succeeds.
\<close>

theorem permission_gating_witness:
  "HandleGlobalRequests denyAll Map.empty [(\<lparr>Type = ''tcpip-forward'', WantReply = True, Payload = payload_localhost_0\<rparr>, fairWorld)] =
       (([Log ''tcpip-forward not allowed'', Reply False], Returned), Map.empty)
   \<and> HandleGlobalRequests denyAll Map.empty [(\<lparr>Type = ''streamlocal-forward@openssh.com'', WantReply = True, Payload = payload_sock\<rparr>, fairWorld)] =
       (([Log ''streamlocal-forward not allowed'', Reply False], Returned), Map.empty)
   \<and> handleChannel shellwords_Parse denyAll ''/bin/sh'' \<lparr>ChannelType = ''direct-tcpip'', ExtraData = extra_direct_tcpip\<rparr> fairWorld [] =
       ([Reject Prohibited ''direct-tcpip not allowed''], Returned)
   \<and> handleChannel shellwords_Parse denyAll ''/bin/sh'' \<lparr>ChannelType = ''direct-streamlocal@openssh.com'', ExtraData = extra_direct_streamlocal\<rparr> fairWorld [] =
       ([Reject Prohibited ''direct-streamlocal (Unix domain socket) not allowed''], Returned)
   \<and> handleSession_loop shellwords_Parse denyAll ''/bin/sh'' None [(\<lparr>Type = ''exec'', WantReply = True, Payload = payload_echo\<rparr>, fairWorld)] =
       ([Log ''execution not allowed (exec)'', Reply False], Returned)
   \<and> handleSession_loop shellwords_Parse denyAll ''/bin/sh'' None [(\<lparr>Type = ''pty-req'', WantReply = True, Payload = payload_pty\<rparr>, fairWorld)] =
       ([Log ''execution not allowed (pty-req)'', Reply False], Returned)
   \<and> handleSession_loop shellwords_Parse denyAll ''/bin/sh'' None [(\<lparr>Type = ''subsystem'', WantReply = True, Payload = payload_sftp\<rparr>, fairWorld)] =
       ([Log ''sftp not allowed'', Reply False], Returned)
   \<and> HandleGlobalRequests allowAll Map.empty [(\<lparr>Type = ''tcpip-forward'', WantReply = True, Payload = payload_localhost_0\<rparr>, fairWorld)] =
       (([Go [Listen ''tcp'' ''127.0.0.1:0'', Reply True,
              Go [Wait, ListenerClose 1, Log ''connection closed''],
              ListenerAccept 1, Log ''failed to accept'']], Returned),
        [''127.0.0.1:0'' \<mapsto> 1])
   \<and> HandleGlobalRequests allowAll Map.empty [(\<lparr>Type = ''streamlocal-forward@openssh.com'', WantReply = True, Payload = payload_sock\<rparr>, fairWorld)] =
       (([Go [Listen ''unix'' ''/tmp/t.sock'', Reply True,
              Go [Wait, ListenerClose 1, Log ''connection closed''],
              ListenerAccept 1, Log ''failed to accept'']], Returned),
        [''/tmp/t.sock'' \<mapsto> 1])
   \<and> handleChannel shellwords_Parse allowAll ''/bin/sh'' \<lparr>ChannelType = ''direct-tcpip'', ExtraData = extra_direct_tcpip\<rparr> fairWorld [] =
       ([Accept, Go [DiscardRequests], Dial ''tcp'' ''127.0.0.1:8080'',
         Go [Copy ''channel'' ''conn''], Copy ''conn'' ''channel'', ChannelClose, ConnClose],
        Returned)
   \<and> handleChannel shellwords_Parse allowAll ''/bin/sh'' \<lparr>ChannelType = ''direct-streamlocal@openssh.com'', ExtraData = extra_direct_streamlocal\<rparr> fairWorld [] =
       ([Accept, Go [DiscardRequests], Dial ''unix'' ''/tmp/t.sock'',
         Go [Copy ''channel'' ''conn''], Copy ''conn'' ''channel'', ChannelClose, ConnClose],
        Returned)
   \<and> handleSession_loop shellwords_Parse allowAll ''/bin/sh'' None [(\<lparr>Type = ''exec'', WantReply = True, Payload = payload_echo\<rparr>, fairWorld)] =
       ([StdinPipe, StdoutPipe, StderrPipe,
         Go [Copy ''stdin'' ''connection''],
         Go [Copy ''connection'' ''stdout''],
         Go [Copy ''connection'' ''stderr''],
         Reply True,
         Run [''/bin/echo'', ''hello''],
         SendRequest ''exit-status'' False (Marshal_exitStatusMsg 0),
         ChannelClose], Returned)
   \<and> handleSession_loop shellwords_Parse allowAll ''/bin/sh'' None [(\<lparr>Type = ''pty-req'', WantReply = True, Payload = payload_pty\<rparr>, fairWorld)] =
       ([CreatePty ''/bin/sh'', SetWinsize 3 80 24, Reply True], Returned)
   \<and> (\<exists>rest. handleSession_loop shellwords_Parse allowAll ''/bin/sh'' None [(\<lparr>Type = ''subsystem'', WantReply = True, Payload = payload_sftp\<rparr>, fairWorld)] =
       (Reply True # NewServer # rest, Returned))"
proof -
  have d1: "HandleGlobalRequests denyAll Map.empty [(\<lparr>Type = ''tcpip-forward'', WantReply = True, Payload = payload_localhost_0\<rparr>, fairWorld)] =
       (([Log ''tcpip-forward not allowed'', Reply False], Returned), Map.empty)"
    using permission_gating [where s = denyAll and req = "\<lparr>Type = ''tcpip-forward'', WantReply = True, Payload = payload_localhost_0\<rparr>"
        and Parse = shellwords_Parse and shell = "''/bin/sh''" and shf = None and w = fairWorld and reg = Map.empty and requests = "[]"]
    by (simp add: denyAll_def allowAll_def fairWorld_def decode_localhost_0 decode_sock decode_echo
        decode_direct_tcpip decode_direct_streamlocal address_localhost_0 address_localhost_8080
        split_echo pty_dims payload_sftp_def direct_bridge_traces exitCode_def)
  have d2: "HandleGlobalRequests denyAll Map.empty [(\<lparr>Type = ''streamlocal-forward@openssh.com'', WantReply = True, Payload = payload_sock\<rparr>, fairWorld)] =
       (([Log ''streamlocal-forward not allowed'', Reply False], Returned), Map.empty)"
    using permission_gating [where s = denyAll and req = "\<lparr>Type = ''streamlocal-forward@openssh.com'', WantReply = True, Payload = payload_sock\<rparr>"
        and Parse = shellwords_Parse and shell = "''/bin/sh''" and shf = None and w = fairWorld and reg = Map.empty and requests = "[]"]
    by (simp add: denyAll_def allowAll_def fairWorld_def decode_localhost_0 decode_sock decode_echo
        decode_direct_tcpip decode_direct_streamlocal address_localhost_0 address_localhost_8080
        split_echo pty_dims payload_sftp_def direct_bridge_traces exitCode_def)
  have d3: "handleChannel shellwords_Parse denyAll ''/bin/sh'' \<lparr>ChannelType = ''direct-tcpip'', ExtraData = extra_direct_tcpip\<rparr> fairWorld [] =
       ([Reject Prohibited ''direct-tcpip not allowed''], Returned)"
    using permission_gating [where s = denyAll and newChannel = "\<lparr>ChannelType = ''direct-tcpip'', ExtraData = extra_direct_tcpip\<rparr>"
        and Parse = shellwords_Parse and shell = "''/bin/sh''" and shf = None and w = fairWorld and reg = Map.empty and requests = "[]"]
    by (simp add: denyAll_def allowAll_def fairWorld_def decode_localhost_0 decode_sock decode_echo
        decode_direct_tcpip decode_direct_streamlocal address_localhost_0 address_localhost_8080
        split_echo pty_dims payload_sftp_def direct_bridge_traces exitCode_def)
  have d4: "handleChannel shellwords_Parse denyAll ''/bin/sh'' \<lparr>ChannelType = ''direct-streamlocal@openssh.com'', ExtraData = extra_direct_streamlocal\<rparr> fairWorld [] =
       ([Reject Prohibited ''direct-streamlocal (Unix domain socket) not allowed''], Returned)"
    using permission_gating [where s = denyAll and newChannel = "\<lparr>ChannelType = ''direct-streamlocal@openssh.com'', ExtraData = extra_direct_streamlocal\<rparr>"
        and Parse = shellwords_Parse and shell = "''/bin/sh''" and shf = None and w = fairWorld and reg = Map.empty and requests = "[]"]
    by (simp add: denyAll_def allowAll_def fairWorld_def decode_localhost_0 decode_sock decode_echo
        decode_direct_tcpip decode_direct_streamlocal address_localhost_0 address_localhost_8080
        split_echo pty_dims payload_sftp_def direct_bridge_traces exitCode_def)
  have d5: "handleSession_loop shellwords_Parse denyAll ''/bin/sh'' None [(\<lparr>Type = ''exec'', WantReply = True, Payload = payload_echo\<rparr>, fairWorld)] =
       ([Log ''execution not allowed (exec)'', Reply False], Returned)"
    using permission_gating [where s = denyAll and req = "\<lparr>Type = ''exec'', WantReply = True, Payload = payload_echo\<rparr>"
        and Parse = shellwords_Parse and shell = "''/bin/sh''" and shf = None and w = fairWorld and reg = Map.empty and requests = "[]"]
    by (simp add: denyAll_def allowAll_def fairWorld_def decode_localhost_0 decode_sock decode_echo
        decode_direct_tcpip decode_direct_streamlocal address_localhost_0 address_localhost_8080
        split_echo pty_dims payload_sftp_def direct_bridge_traces exitCode_def)
  have d6: "handleSession_loop shellwords_Parse denyAll ''/bin/sh'' None [(\<lparr>Type = ''pty-req'', WantReply = True, Payload = payload_pty\<rparr>, fairWorld)] =
       ([Log ''execution not allowed (pty-req)'', Reply False], Returned)"
    using permission_gating [where s = denyAll and req = "\<lparr>Type = ''pty-req'', WantReply = True, Payload = payload_pty\<rparr>"
        and Parse = shellwords_Parse and shell = "''/bin/sh''" and shf = None and w = fairWorld and reg = Map.empty and requests = "[]"]
    by (simp add: denyAll_def allowAll_def fairWorld_def decode_localhost_0 decode_sock decode_echo
        decode_direct_tcpip decode_direct_streamlocal address_localhost_0 address_localhost_8080
        split_echo pty_dims payload_sftp_def direct_bridge_traces exitCode_def)
  have d7: "handleSession_loop shellwords_Parse denyAll ''/bin/sh'' None [(\<lparr>Type = ''subsystem'', WantReply = True, Payload = payload_sftp\<rparr>, fairWorld)] =
       ([Log ''sftp not allowed'', Reply False], Returned)"
    using permission_gating [where s = denyAll and req = "\<lparr>Type = ''subsystem'', WantReply = True, Payload = payload_sftp\<rparr>"
        and Parse = shellwords_Parse and shell = "''/bin/sh''" and shf = None and w = fairWorld and reg = Map.empty and requests = "[]"]
    by (simp add: denyAll_def allowAll_def fairWorld_def decode_localhost_0 decode_sock decode_echo
        decode_direct_tcpip decode_direct_streamlocal address_localhost_0 address_localhost_8080
        split_echo pty_dims payload_sftp_def direct_bridge_traces exitCode_def)
  have a1: "HandleGlobalRequests allowAll Map.empty [(\<lparr>Type = ''tcpip-forward'', WantReply = True, Payload = payload_localhost_0\<rparr>, fairWorld)] =
       (([Go [Listen ''tcp'' ''127.0.0.1:0'', Reply True,
              Go [Wait, ListenerClose 1, Log ''connection closed''],
              ListenerAccept 1, Log ''failed to accept'']], Returned),
        [''127.0.0.1:0'' \<mapsto> 1])"
    using permission_gating [where s = allowAll and req = "\<lparr>Type = ''tcpip-forward'', WantReply = True, Payload = payload_localhost_0\<rparr>" and addr = "''127.0.0.1''" and port = 0 and ln = 1
        and Parse = shellwords_Parse and shell = "''/bin/sh''" and shf = None and w = fairWorld and reg = Map.empty and requests = "[]"]
    by (simp add: denyAll_def allowAll_def fairWorld_def decode_localhost_0 decode_sock decode_echo
        decode_direct_tcpip decode_direct_streamlocal address_localhost_0 address_localhost_8080
        split_echo pty_dims payload_sftp_def direct_bridge_traces exitCode_def)
  have a2: "HandleGlobalRequests allowAll Map.empty [(\<lparr>Type = ''streamlocal-forward@openssh.com'', WantReply = True, Payload = payload_sock\<rparr>, fairWorld)] =
       (([Go [Listen ''unix'' ''/tmp/t.sock'', Reply True,
              Go [Wait, ListenerClose 1, Log ''connection closed''],
              ListenerAccept 1, Log ''failed to accept'']], Returned),
        [''/tmp/t.sock'' \<mapsto> 1])"
    using permission_gating [where s = allowAll and req = "\<lparr>Type = ''streamlocal-forward@openssh.com'', WantReply = True, Payload = payload_sock\<rparr>" and socketPath = "''/tmp/t.sock''" and ln = 1
        and Parse = shellwords_Parse and shell = "''/bin/sh''" and shf = None and w = fairWorld and reg = Map.empty and requests = "[]"]
    by (simp add: denyAll_def allowAll_def fairWorld_def decode_localhost_0 decode_sock decode_echo
        decode_direct_tcpip decode_direct_streamlocal address_localhost_0 address_localhost_8080
        split_echo pty_dims payload_sftp_def direct_bridge_traces exitCode_def)
  have a3: "handleChannel shellwords_Parse allowAll ''/bin/sh'' \<lparr>ChannelType = ''direct-tcpip'', ExtraData = extra_direct_tcpip\<rparr> fairWorld [] =
       ([Accept, Go [DiscardRequests], Dial ''tcp'' ''127.0.0.1:8080'',
         Go [Copy ''channel'' ''conn''], Copy ''conn'' ''channel'', ChannelClose, ConnClose],
        Returned)"
    using permission_gating [where s = allowAll and newChannel = "\<lparr>ChannelType = ''direct-tcpip'', ExtraData = extra_direct_tcpip\<rparr>" and remoteAddr = "''127.0.0.1''" and remotePort = 8080 and sourceAddr = "''127.0.0.1''" and sourcePort = 50000
        and Parse = shellwords_Parse and shell = "''/bin/sh''" and shf = None and w = fairWorld and reg = Map.empty and requests = "[]"]
    by (simp add: denyAll_def allowAll_def fairWorld_def decode_localhost_0 decode_sock decode_echo
        decode_direct_tcpip decode_direct_streamlocal address_localhost_0 address_localhost_8080
        split_echo pty_dims payload_sftp_def direct_bridge_traces exitCode_def)
  have a4: "handleChannel shellwords_Parse allowAll ''/bin/sh'' \<lparr>ChannelType = ''direct-streamlocal@openssh.com'', ExtraData = extra_direct_streamlocal\<rparr> fairWorld [] =
       ([Accept, Go [DiscardRequests], Dial ''unix'' ''/tmp/t.sock'',
         Go [Copy ''channel'' ''conn''], Copy ''conn'' ''channel'', ChannelClose, ConnClose],
        Returned)"
    using permission_gating [where s = allowAll and newChannel = "\<lparr>ChannelType = ''direct-streamlocal@openssh.com'', ExtraData = extra_direct_streamlocal\<rparr>" and socketPath = "''/tmp/t.sock''" and reservedStr = "[]" and reservedNum = 0
        and Parse = shellwords_Parse and shell = "''/bin/sh''" and shf = None and w = fairWorld and reg = Map.empty and requests = "[]"]
    by (simp add: denyAll_def allowAll_def fairWorld_def decode_localhost_0 decode_sock decode_echo
        decode_direct_tcpip decode_direct_streamlocal address_localhost_0 address_localhost_8080
        split_echo pty_dims payload_sftp_def direct_bridge_traces exitCode_def)
  have a5: "handleSession_loop shellwords_Parse allowAll ''/bin/sh'' None [(\<lparr>Type = ''exec'', WantReply = True, Payload = payload_echo\<rparr>, fairWorld)] =
       ([StdinPipe, StdoutPipe, StderrPipe,
         Go [Copy ''stdin'' ''connection''],
         Go [Copy ''connection'' ''stdout''],
         Go [Copy ''connection'' ''stderr''],
         Reply True,
         Run [''/bin/echo'', ''hello''],
         SendRequest ''exit-status'' False (Marshal_exitStatusMsg 0),
         ChannelClose], Returned)"
    using permission_gating [where s = allowAll and req = "\<lparr>Type = ''exec'', WantReply = True, Payload = payload_echo\<rparr>" and command = "''/bin/echo hello''" and name = "''/bin/echo''" and args = "[''hello'']"
        and Parse = shellwords_Parse and shell = "''/bin/sh''" and shf = None and w = fairWorld and reg = Map.empty and requests = "[]"]
    by (simp add: denyAll_def allowAll_def fairWorld_def decode_localhost_0 decode_sock decode_echo
        decode_direct_tcpip decode_direct_streamlocal address_localhost_0 address_localhost_8080
        split_echo pty_dims payload_sftp_def direct_bridge_traces exitCode_def)
  have a6: "handleSession_loop shellwords_Parse allowAll ''/bin/sh'' None [(\<lparr>Type = ''pty-req'', WantReply = True, Payload = payload_pty\<rparr>, fairWorld)] =
       ([CreatePty ''/bin/sh'', SetWinsize 3 80 24, Reply True], Returned)"
    using permission_gating [where s = allowAll and req = "\<lparr>Type = ''pty-req'', WantReply = True, Payload = payload_pty\<rparr>" and wd = 80 and ht = 24 and f = 3
        and Parse = shellwords_Parse and shell = "''/bin/sh''" and shf = None and w = fairWorld and reg = Map.empty and requests = "[]"]
    by (simp add: denyAll_def allowAll_def fairWorld_def decode_localhost_0 decode_sock decode_echo
        decode_direct_tcpip decode_direct_streamlocal address_localhost_0 address_localhost_8080
        split_echo pty_dims payload_sftp_def direct_bridge_traces exitCode_def)
  have a7: "\<exists>rest. handleSession_loop shellwords_Parse allowAll ''/bin/sh'' None [(\<lparr>Type = ''subsystem'', WantReply = True, Payload = payload_sftp\<rparr>, fairWorld)] =
       (Reply True # NewServer # rest, Returned)"
    using permission_gating [where s = allowAll and req = "\<lparr>Type = ''subsystem'', WantReply = True, Payload = payload_sftp\<rparr>"
        and Parse = shellwords_Parse and shell = "''/bin/sh''" and shf = None and w = fairWorld and reg = Map.empty and requests = "[]"]
    by (simp add: denyAll_def allowAll_def fairWorld_def decode_localhost_0 decode_sock decode_echo
        decode_direct_tcpip decode_direct_streamlocal address_localhost_0 address_localhost_8080
        split_echo pty_dims payload_sftp_def direct_bridge_traces exitCode_def)
  show ?thesis
    using d1 d2 d3 d4 d5 d6 d7 a1 a2 a3 a4 a5 a6 a7 by blast
qed

text \<open>
  The claim as stated has a permitted operation with a valid payload succeed.
  \<^verbatim>\<open>tcpip-forward\<close> permitted, for 127.0.0.1 port 0, and the bind fails: the reply is false.
\<close>

theorem bind_failure_counterexample:
  "HandleGlobalRequests allowAll Map.empty
     [(\<lparr>Type = ''tcpip-forward'', WantReply = True, Payload = payload_localhost_0\<rparr>,
       fairWorld\<lparr>Listen_result := None\<rparr>)] =
     (([Go [Listen ''tcp'' ''127.0.0.1:0'', Reply False]], Returned), Map.empty)"
  by (simp add: allowAll_def fairWorld_def handleTcpipForward_def decode_localhost_0
      address_localhost_0 spawn_def andThen_def)

end
